theory Spec2Isabelle
  imports Main
begin

section \<open>Strings\<close>

text \<open>
  The program is \<^verbatim>\<open>src/projstat.js\<close>, a browser script that resolves a Google Sheets
  link, fetches the sheet through a cascade of transports, normalizes what comes back
  into one table of columns and rows, and filters that table.

  A JavaScript string is a sequence of UTF-16 code units, and is modelled as the list of
  their numbers. \<open>js\<close> gives the code units of an ASCII literal. What the language
  defines on code units is defined here: the white space of \<^verbatim>\<open>trim()\<close> and of the
  regular expression class \<^verbatim>\<open>\s\<close> (the characters WhiteSpace and LineTerminator of
  the language), the character classes of the program's regular expressions, and case
  folding of ASCII letters for a regular expression with the flag \<^verbatim>\<open>i\<close>.
  \<^verbatim>\<open>toLowerCase()\<close> is that folding on a string of ASCII characters; on any other
  string it follows the Unicode tables of the browser, which are a parameter (a field
  of the host, below).
\<close>

type_synonym jsstring = "nat list"

abbreviation (input) js :: "string \<Rightarrow> jsstring" where
  "js s \<equiv> map of_char s"

abbreviation (input) dquote :: nat where
  "dquote \<equiv> 34"

abbreviation (input) comma :: nat where
  "comma \<equiv> 44"

definition isSpace :: "nat \<Rightarrow> bool" where
  \<comment> \<open>U+0009 to U+000D, U+0020, U+00A0, U+1680, U+2000 to U+200A, U+2028, U+2029,
     U+202F, U+205F, U+3000, U+FEFF\<close>
  "isSpace c \<longleftrightarrow>
     List.member [9, 10, 11, 12, 13, 32, 160, 5760, 8232, 8233, 8239, 8287, 12288, 65279] c \<or>
     (8192 \<le> c \<and> c \<le> 8202)"

definition isDigit :: "nat \<Rightarrow> bool" where
  \<comment> \<open>the class \<^verbatim>\<open>\d\<close>, that is \<^verbatim>\<open>[0-9]\<close>\<close>
  "isDigit c \<longleftrightarrow> 48 \<le> c \<and> c \<le> 57"

definition isLowerAlnum :: "nat \<Rightarrow> bool" where
  \<comment> \<open>the class \<^verbatim>\<open>[a-z0-9]\<close>\<close>
  "isLowerAlnum c \<longleftrightarrow> (97 \<le> c \<and> c \<le> 122) \<or> (48 \<le> c \<and> c \<le> 57)"

definition isIdChar :: "nat \<Rightarrow> bool" where
  \<comment> \<open>the class \<^verbatim>\<open>[a-zA-Z0-9-_]\<close>\<close>
  "isIdChar c \<longleftrightarrow>
     (97 \<le> c \<and> c \<le> 122) \<or> (65 \<le> c \<and> c \<le> 90) \<or> (48 \<le> c \<and> c \<le> 57) \<or> c = 45 \<or> c = 95"

definition trim :: "jsstring \<Rightarrow> jsstring" where
  "trim s = rev (dropWhile isSpace (rev (dropWhile isSpace s)))"

definition asciiLowerCase :: "jsstring \<Rightarrow> jsstring" where
  \<comment> \<open>the letters \<^verbatim>\<open>A\<close> to \<^verbatim>\<open>Z\<close> to lower case, every other code unit unchanged\<close>
  "asciiLowerCase s = map (\<lambda>c. if 65 \<le> c \<and> c \<le> 90 then c + 32 else c) s"

definition startsWith :: "jsstring \<Rightarrow> jsstring \<Rightarrow> bool" where
  "startsWith s p \<longleftrightarrow> take (length p) s = p"

definition endsWith :: "jsstring \<Rightarrow> jsstring \<Rightarrow> bool" where
  "endsWith s p \<longleftrightarrow> length p \<le> length s \<and> drop (length s - length p) s = p"

fun includesStr :: "jsstring \<Rightarrow> jsstring \<Rightarrow> bool" where
  \<comment> \<open>\<^verbatim>\<open>s.includes(p)\<close>: \<open>p\<close> occurs in \<open>s\<close> as a contiguous substring\<close>
  "includesStr [] p = (p = [])"
| "includesStr (c # s) p = (startsWith (c # s) p \<or> includesStr s p)"

fun showNat :: "nat \<Rightarrow> jsstring" where
  \<comment> \<open>a non-negative integer inside a template literal: its decimal digits\<close>
  "showNat n = (if n < 10 then [48 + n] else showNat (n div 10) @ [48 + n mod 10])"

declare showNat.simps [simp del]

definition Number :: "jsstring \<Rightarrow> nat" where
  \<comment> \<open>\<^verbatim>\<open>Number(s)\<close> for a string of decimal digits (exact below \<open>2 ^ 53\<close>)\<close>
  "Number s = foldl (\<lambda>n c. 10 * n + (c - 48)) 0 s"


section \<open>The host\<close>

text \<open>
  What the browser decides is a parameter of the model, the host: how a number is
  printed (\<^verbatim>\<open>String(n)\<close>; the type of numbers is a parameter too), what
  \<^verbatim>\<open>new Date(year, month, day).toLocaleDateString()\<close> gives, the lower case of a
  string with a character outside ASCII, and what reading a property gives on a plain
  object that has no such property of its own: \<open>None\<close> (\<^verbatim>\<open>undefined\<close>) for most
  names, and the text of the inherited value for a name that \<^verbatim>\<open>Object.prototype\<close>
  defines, such as \<^verbatim>\<open>constructor\<close>.
\<close>

record 'n host =
  numberToString :: "'n \<Rightarrow> jsstring"
  toLocaleDateString :: "nat \<Rightarrow> nat \<Rightarrow> nat \<Rightarrow> jsstring"
  unicodeLowerCase :: "jsstring \<Rightarrow> jsstring"
  inheritedText :: "jsstring \<Rightarrow> jsstring option"

definition toLowerCase :: "'n host \<Rightarrow> jsstring \<Rightarrow> jsstring" where
  \<comment> \<open>\<^verbatim>\<open>s.toLowerCase()\<close>: the language fixes it on ASCII, where only the letters
     \<^verbatim>\<open>A\<close> to \<^verbatim>\<open>Z\<close> change\<close>
  "toLowerCase H s =
     (if list_all (\<lambda>c. c < 128) s then asciiLowerCase s else unicodeLowerCase H s)"

text \<open>
  A host for concrete runs: numbers are natural numbers printed in decimal, a date is
  printed as year, month (from one) and day, and \<^verbatim>\<open>constructor\<close> and \<^verbatim>\<open>toString\<close>
  are the inherited properties. Its lower case knows the capital letters of ASCII and
  of Latin-1 and two characters whose lower case is not one character of the same
  block: U+0130, which becomes \<^verbatim>\<open>i\<close> followed by U+0307, and U+212A, which becomes
  \<^verbatim>\<open>k\<close>.
\<close>

definition isoDate :: "nat \<Rightarrow> nat \<Rightarrow> nat \<Rightarrow> jsstring" where
  "isoDate year month day = showNat year @ js ''-'' @ showNat (month + 1) @ js ''-'' @ showNat day"

definition objectPrototype :: "jsstring \<Rightarrow> jsstring option" where
  "objectPrototype name =
     map_of [(js ''constructor'', js ''function Object() { [native code] }''),
             (js ''toString'', js ''function toString() { [native code] }'')] name"

definition exampleLowerCase :: "jsstring \<Rightarrow> jsstring" where
  "exampleLowerCase s =
     concat (map (\<lambda>c. if c = 304 then [105, 775]
                       else if c = 8490 then [107]
                       else if (65 \<le> c \<and> c \<le> 90) \<or> (192 \<le> c \<and> c \<le> 222 \<and> c \<noteq> 215)
                         then [c + 32]
                       else [c]) s)"

definition exampleHost :: "nat host" where
  "exampleHost =
     \<lparr>numberToString = showNat, toLocaleDateString = isoDate,
      unicodeLowerCase = exampleLowerCase, inheritedText = objectPrototype\<rparr>"


section \<open>Header normalization\<close>

text \<open>
  \<^verbatim>\<open>normalizeHeader\<close> (lines 19 to 27) is a chain of string operations: trim, lower
  case, parentheses to spaces, every character outside \<^verbatim>\<open>[a-z0-9\s]\<close> to a space,
  every run of white space to one space, trim.
\<close>

fun collapseSpaces :: "bool \<Rightarrow> jsstring \<Rightarrow> jsstring" where
  \<comment> \<open>\<^verbatim>\<open>.replace(/\s+/g, " ")\<close>; the flag says that the previous character was white
     space, whose run has already been replaced\<close>
  "collapseSpaces inRun [] = []"
| "collapseSpaces inRun (c # s) =
     (if isSpace c then (if inRun then collapseSpaces True s else 32 # collapseSpaces True s)
      else c # collapseSpaces False s)"

definition normalizeHeader :: "'n host \<Rightarrow> jsstring \<Rightarrow> jsstring" where
  "normalizeHeader H value =
     trim
       (collapseSpaces False
          (map (\<lambda>c. if isLowerAlnum c \<or> isSpace c then c else 32)
             (map (\<lambda>c. if c = 40 \<or> c = 41 then 32 else c)
                (toLowerCase H (trim value)))))"


section \<open>The table model\<close>

record column =
  key :: jsstring
  label :: jsstring
  type :: jsstring

text \<open>
  A row is the object \<^verbatim>\<open>mapped\<close>: from a column key to the formatted value; a later
  assignment to the same key replaces the earlier one.
\<close>

type_synonym row = "jsstring \<rightharpoonup> jsstring"

record table =
  columns :: "column list"
  rows :: "row list"

text \<open>An error is its class and its message.\<close>

datatype error = Error string | TypeError string | SyntaxError string

text \<open>
  The three normalizers build a column from a header and its index with the same two
  expressions (lines 208 and 209, 269 and 270, 360 and 361):
  \<^verbatim>\<open>normalizeHeader(header) || `column ${index + 1}`\<close> and
  \<^verbatim>\<open>String(header || `Column ${index + 1}`).trim()\<close>.
\<close>

definition columnKey :: "'n host \<Rightarrow> jsstring \<Rightarrow> nat \<Rightarrow> jsstring" where
  "columnKey H header index =
     (if normalizeHeader H header \<noteq> [] then normalizeHeader H header
      else js ''column '' @ showNat (index + 1))"

definition columnLabel :: "jsstring \<Rightarrow> nat \<Rightarrow> jsstring" where
  "columnLabel header index =
     trim (if header \<noteq> [] then header else js ''Column '' @ showNat (index + 1))"


section \<open>The CSV shape\<close>

text \<open>
  \<^verbatim>\<open>parseCsvLine\<close> (lines 226 to 255): the loop over the characters of the line, with
  the fields found so far, the current field and the quoting flag. \<^verbatim>\<open>line[i + 1]\<close>
  past the end is \<^verbatim>\<open>undefined\<close>, which is not a quote.
\<close>

fun parseCsvLoop :: "jsstring \<Rightarrow> jsstring list \<Rightarrow> jsstring \<Rightarrow> bool \<Rightarrow> jsstring list" where
  "parseCsvLoop [] values current inQuotes = values @ [current]"
| "parseCsvLoop (char # rest) values current inQuotes =
     (if char = dquote then
        (case rest of
           [] \<Rightarrow> parseCsvLoop rest values current (\<not> inQuotes)
         | nxt # rest' \<Rightarrow>
             if inQuotes \<and> nxt = dquote
             then parseCsvLoop rest' values (current @ [dquote]) inQuotes
             else parseCsvLoop rest values current (\<not> inQuotes))
      else if char = comma \<and> \<not> inQuotes then parseCsvLoop rest (values @ [current]) [] inQuotes
      else parseCsvLoop rest values (current @ [char]) inQuotes)"

definition parseCsvLine :: "jsstring \<Rightarrow> jsstring list" where
  "parseCsvLine line = parseCsvLoop line [] [] False"

definition stripBOM :: "jsstring \<Rightarrow> jsstring" where
  \<comment> \<open>\<^verbatim>\<open>.replace(/^\uFEFF/, "")\<close>\<close>
  "stripBOM s = (case s of c # rest \<Rightarrow> if c = 65279 then rest else s | [] \<Rightarrow> s)"

fun splitLines :: "jsstring \<Rightarrow> jsstring \<Rightarrow> jsstring list" where
  \<comment> \<open>\<^verbatim>\<open>.split(/\r?\n/)\<close>, with the piece read so far\<close>
  "splitLines [] piece = [piece]"
| "splitLines [c] piece = (if c = 10 then [piece, []] else [piece @ [c]])"
| "splitLines (c # d # s) piece =
     (if c = 10 then piece # splitLines (d # s) []
      else if c = 13 \<and> d = 10 then piece # splitLines s []
      else splitLines (d # s) (piece @ [c]))"

definition csvRow :: "column list \<Rightarrow> jsstring \<Rightarrow> row" where
  \<comment> \<open>the callback of \<^verbatim>\<open>lines.slice(1).map\<close> (lines 274 to 283)\<close>
  "csvRow cols line =
     (let values = parseCsvLine line in
      fold (\<lambda>(index, col) mapped.
              mapped(key col \<mapsto> trim (if index < length values then values ! index else [])))
        (enumerate 0 cols) Map.empty)"

definition csvLines :: "jsstring \<Rightarrow> jsstring list" where
  \<comment> \<open>the constant \<^verbatim>\<open>lines\<close> of \<^verbatim>\<open>parseCsvText\<close> (lines 258 to 261)\<close>
  "csvLines csvText =
     filter (\<lambda>line. length (trim line) > 0) (splitLines (stripBOM csvText) [])"

definition parseCsvText :: "'n host \<Rightarrow> jsstring \<Rightarrow> error + table" where
  \<comment> \<open>lines 257 to 286\<close>
  "parseCsvText H csvText =
     (case csvLines csvText of
        [] \<Rightarrow> Inl (Error ''No rows found in CSV export.'')
      | first # others \<Rightarrow>
          (let headerValues = parseCsvLine first;
               cols = map (\<lambda>(index, header).
                        \<lparr>key = columnKey H header index, label = columnLabel header index,
                         type = js ''string''\<rparr>)
                      (enumerate 0 headerValues)
           in Inr \<lparr>columns = cols, rows = map (csvRow cols) others\<rparr>))"


section \<open>The typed-cell shape\<close>

text \<open>
  A raw cell value is \<^verbatim>\<open>null\<close> (or absent), a string, a number or a boolean.
\<close>

datatype 'n jsval = Null | Str jsstring | Num 'n | Bool bool

definition toString :: "'n host \<Rightarrow> 'n jsval \<Rightarrow> jsstring" where
  \<comment> \<open>\<^verbatim>\<open>String(v)\<close>\<close>
  "toString H v =
     (case v of
        Null \<Rightarrow> js ''null''
      | Str s \<Rightarrow> s
      | Num n \<Rightarrow> numberToString H n
      | Bool b \<Rightarrow> (if b then js ''true'' else js ''false''))"

record 'n cell =
  cell_v :: "'n jsval"
  cell_f :: "jsstring option"

record gcol =
  col_label :: "jsstring option"
  col_type :: "jsstring option"

record 'n grow =
  row_c :: "'n cell option list option"

record 'n gtable =
  table_cols :: "gcol list option"
  table_rows :: "'n grow list option"

record 'n payload =
  payload_table :: "'n gtable option"

definition digitRun :: "jsstring \<Rightarrow> (jsstring \<times> jsstring) option" where
  \<comment> \<open>\<^verbatim>\<open>(\d+)\<close> at the start of the text: the longest run of digits, and what follows\<close>
  "digitRun s =
     (if takeWhile isDigit s = [] then None
      else Some (takeWhile isDigit s, dropWhile isDigit s))"

definition matchDate :: "jsstring \<Rightarrow> (jsstring \<times> jsstring \<times> jsstring) option" where
  \<comment> \<open>\<^verbatim>\<open>.match(/^Date\((\d+),(\d+),(\d+)/)\<close>: the three groups\<close>
  "matchDate s =
     (if startsWith s (js ''Date('') then
        (case digitRun (drop 5 s) of
           None \<Rightarrow> None
         | Some (y, s1) \<Rightarrow>
             (case s1 of
                [] \<Rightarrow> None
              | c1 # s1' \<Rightarrow>
                  if c1 \<noteq> comma then None
                  else
                    (case digitRun s1' of
                       None \<Rightarrow> None
                     | Some (m, s2) \<Rightarrow>
                         (case s2 of
                            [] \<Rightarrow> None
                          | c2 # s2' \<Rightarrow>
                              if c2 \<noteq> comma then None
                              else
                                (case digitRun s2' of
                                   None \<Rightarrow> None
                                 | Some (d, rest) \<Rightarrow> Some (y, m, d))))))
      else None)"

definition formatCellValue :: "'n host \<Rightarrow> 'n cell option \<Rightarrow> jsstring \<Rightarrow> jsstring" where
  \<comment> \<open>lines 182 to 204; an absent or \<^verbatim>\<open>null\<close> cell is \<open>None\<close>\<close>
  "formatCellValue H cell columnType =
     (case cell of
        None \<Rightarrow> []
      | Some cl \<Rightarrow>
          (case (case cell_f cl of
                   None \<Rightarrow> None
                 | Some s \<Rightarrow> if trim s \<noteq> [] then Some s else None) of
             Some s \<Rightarrow> s
           | None \<Rightarrow>
               if cell_v cl = Null then []
               else
                 (case (if columnType = js ''date''
                        then (case cell_v cl of Str s \<Rightarrow> matchDate s | _ \<Rightarrow> None)
                        else None) of
                    Some (year, month, day) \<Rightarrow>
                      toLocaleDateString H (Number year) (Number month) (Number day)
                  | None \<Rightarrow> toString H (cell_v cl))))"

definition cellAt :: "'n grow \<Rightarrow> nat \<Rightarrow> 'n cell option" where
  \<comment> \<open>\<^verbatim>\<open>row.c?.[index]\<close>\<close>
  "cellAt r index =
     (case row_c r of
        None \<Rightarrow> None
      | Some cs \<Rightarrow> if index < length cs then cs ! index else None)"

definition labelText :: "gcol \<Rightarrow> jsstring" where
  \<comment> \<open>an absent label behaves as the empty string in both column expressions\<close>
  "labelText c = (case col_label c of None \<Rightarrow> [] | Some s \<Rightarrow> s)"

definition payloadCols :: "'n payload \<Rightarrow> gcol list" where
  \<comment> \<open>\<^verbatim>\<open>payload.table?.cols ?? []\<close>\<close>
  "payloadCols p =
     (case payload_table p of
        None \<Rightarrow> []
      | Some t \<Rightarrow> (case table_cols t of None \<Rightarrow> [] | Some cs \<Rightarrow> cs))"

definition payloadRows :: "'n payload \<Rightarrow> 'n grow list" where
  \<comment> \<open>\<^verbatim>\<open>payload.table?.rows ?? []\<close>\<close>
  "payloadRows p =
     (case payload_table p of
        None \<Rightarrow> []
      | Some t \<Rightarrow> (case table_rows t of None \<Rightarrow> [] | Some rs \<Rightarrow> rs))"

definition mapPayload :: "'n host \<Rightarrow> 'n payload \<Rightarrow> table" where
  \<comment> \<open>lines 206 to 224\<close>
  "mapPayload H p =
     (let cols =
            map (\<lambda>(index, c).
                   \<lparr>key = columnKey H (labelText c) index,
                    label = columnLabel (labelText c) index,
                    type = (case col_type c of
                              None \<Rightarrow> js ''string''
                            | Some t \<Rightarrow> if t \<noteq> [] then t else js ''string'')\<rparr>)
              (enumerate 0 (payloadCols p));
          rws =
            map (\<lambda>r.
                   fold (\<lambda>(index, col) mapped.
                           mapped(key col \<mapsto> formatCellValue H (cellAt r index) (type col)))
                     (enumerate 0 cols) Map.empty)
              (payloadRows p)
      in \<lparr>columns = cols, rows = rws\<rparr>)"

text \<open>
  Two payloads for concrete runs, with the same column labels and different types and
  rows.
\<close>

definition payloadOne :: "nat payload" where
  "payloadOne =
     \<lparr>payload_table = Some
        \<lparr>table_cols = Some [\<lparr>col_label = Some (js ''Project Name''), col_type = Some (js ''string'')\<rparr>,
                             \<lparr>col_label = None, col_type = Some (js ''date'')\<rparr>],
         table_rows = Some [\<lparr>row_c = Some [Some \<lparr>cell_v = Str (js ''Apollo''), cell_f = None\<rparr>,
                                               Some \<lparr>cell_v = Str (js ''Date(2024,0,15)''),
                                                     cell_f = None\<rparr>]\<rparr>]\<rparr>\<rparr>"

definition payloadTwo :: "nat payload" where
  "payloadTwo =
     \<lparr>payload_table = Some
        \<lparr>table_cols = Some [\<lparr>col_label = Some (js ''Project Name''), col_type = None\<rparr>,
                             \<lparr>col_label = None, col_type = Some (js ''number'')\<rparr>],
         table_rows = None\<rparr>\<rparr>"


section \<open>The array-of-records shape\<close>

text \<open>
  A record of the mirror's answer is a plain object: its own keys in the order of
  \<^verbatim>\<open>Object.keys\<close>, each with a value. Lines 358 to 371 build the table from a
  non-empty array of records. \<^verbatim>\<open>row[column.label]\<close> reads the record's own property
  of that name, and where it has none, what the object inherits.
\<close>

type_synonym 'n jsobject = "(jsstring \<times> 'n jsval) list"

definition getProperty :: "'n host \<Rightarrow> 'n jsobject \<Rightarrow> jsstring \<Rightarrow> jsstring" where
  \<comment> \<open>\<^verbatim>\<open>String(row[name] ?? "")\<close>\<close>
  "getProperty H r name =
     (case map_of r name of
        Some v \<Rightarrow> if v = Null then [] else toString H v
      | None \<Rightarrow> (case inheritedText H name of None \<Rightarrow> [] | Some s \<Rightarrow> s))"

definition mapRecords :: "'n host \<Rightarrow> 'n jsobject \<Rightarrow> 'n jsobject list \<Rightarrow> table" where
  "mapRecords H firstRow rws =
     (let cols =
            map (\<lambda>(index, header).
                   \<lparr>key = columnKey H header index, label = columnLabel header index,
                    type = js ''string''\<rparr>)
              (enumerate 0 (map fst firstRow));
          mappedRows =
            map (\<lambda>r.
                   fold (\<lambda>col mapped. mapped(key col \<mapsto> trim (getProperty H r (label col))))
                     cols Map.empty)
              rws
      in \<lparr>columns = cols, rows = mappedRows\<rparr>)"


section \<open>The transport cascade\<close>

record source =
  sheetId :: jsstring
  gid :: jsstring
  sheet :: jsstring

text \<open>
  What the network does is the environment's choice. An awaited promise is rejected
  with an error or fulfilled with a value; a response has its \<^verbatim>\<open>ok\<close> flag, its status
  and its body. The environment answers the four requests of
  \<^verbatim>\<open>fetchSheetMappedData\<close> (lines 319 to 377) and says what \<^verbatim>\<open>JSON.parse\<close> and
  \<^verbatim>\<open>response.json()\<close> make of a text: an error, or the parsed value (for the
  mirror: \<open>None\<close> when the value is not an array).
\<close>

datatype 'a outcome = Rejected error | Fulfilled 'a

record response =
  ok :: bool
  status :: nat
  body :: jsstring

record 'n network =
  fetchGviz :: "source \<Rightarrow> response outcome"
  JSON_parse :: "jsstring \<Rightarrow> error + 'n payload"
  loadJsonp :: "source \<Rightarrow> 'n payload outcome"
  fetchCsv :: "source \<Rightarrow> response outcome"
  fetchOpenSheet :: "source \<Rightarrow> response outcome"
  responseJson :: "jsstring \<Rightarrow> error + 'n jsobject list option"

definition indexOf :: "jsstring \<Rightarrow> nat \<Rightarrow> nat option" where
  "indexOf s c =
     (if c \<in> set s then Some (length (takeWhile (\<lambda>x. x \<noteq> c) s)) else None)"

definition lastIndexOf :: "jsstring \<Rightarrow> nat \<Rightarrow> nat option" where
  "lastIndexOf s c =
     (if c \<in> set s then Some (length s - 1 - length (takeWhile (\<lambda>x. x \<noteq> c) (rev s)))
      else None)"

definition parseGvizResponse :: "(jsstring \<Rightarrow> error + 'a) \<Rightarrow> jsstring \<Rightarrow> error + 'a" where
  \<comment> \<open>lines 29 to 38, over the environment's \<^verbatim>\<open>JSON.parse\<close>; 123 and 125 are the
     braces\<close>
  "parseGvizResponse parse text =
     (case (indexOf text 123, lastIndexOf text 125) of
        (Some start, Some end) \<Rightarrow>
          if end \<le> start then Inl (Error ''Invalid response from Google Sheets.'')
          else parse (take (end + 1 - start) (drop start text))
      | _ \<Rightarrow> Inl (Error ''Invalid response from Google Sheets.''))"

text \<open>
  The first three strategies are \<^verbatim>\<open>try\<close> blocks with an empty \<^verbatim>\<open>catch\<close>: each
  returns a table or falls through (\<open>None\<close>), whatever was thrown inside it.
\<close>

definition tryGviz :: "'n host \<Rightarrow> 'n network \<Rightarrow> source \<Rightarrow> table option" where
  \<comment> \<open>lines 320 to 332\<close>
  "tryGviz H N src =
     (case fetchGviz N src of
        Rejected e \<Rightarrow> None
      | Fulfilled gvizResponse \<Rightarrow>
          if \<not> ok gvizResponse then None
          else
            (case parseGvizResponse (JSON_parse N) (body gvizResponse) of
               Inl e \<Rightarrow> None
             | Inr p \<Rightarrow>
                 (case payload_table p of
                    None \<Rightarrow> None
                  | Some t \<Rightarrow> Some (mapPayload H p))))"

definition tryJsonp :: "'n host \<Rightarrow> 'n network \<Rightarrow> source \<Rightarrow> table option" where
  \<comment> \<open>lines 334 to 341\<close>
  "tryJsonp H N src =
     (case loadJsonp N src of
        Rejected e \<Rightarrow> None
      | Fulfilled jsonpPayload \<Rightarrow>
          (case payload_table jsonpPayload of
             None \<Rightarrow> None
           | Some t \<Rightarrow> Some (mapPayload H jsonpPayload)))"

definition tryCsv :: "'n host \<Rightarrow> 'n network \<Rightarrow> source \<Rightarrow> table option" where
  \<comment> \<open>lines 343 to 350\<close>
  "tryCsv H N src =
     (case fetchCsv N src of
        Rejected e \<Rightarrow> None
      | Fulfilled csvResponse \<Rightarrow>
          if ok csvResponse then
            (case parseCsvText H (body csvResponse) of Inl e \<Rightarrow> None | Inr t \<Rightarrow> Some t)
          else None)"

definition unavailable :: error where
  "unavailable =
     Error (''Unable to load sheet data. Make sure the sheet is shared to Anyone with '' @
            ''the link (Viewer) or published to the web.'')"

definition fetchSheetMappedData :: "'n host \<Rightarrow> 'n network \<Rightarrow> source \<Rightarrow> error + table" where
  \<comment> \<open>\<^verbatim>\<open>buildOpenSheetApiUrl\<close> (lines 174 to 180) returns a non-empty address exactly
     when the source has a tab name; the fourth strategy stands outside any \<^verbatim>\<open>try\<close>\<close>
  "fetchSheetMappedData H N src =
     (case tryGviz H N src of
        Some t \<Rightarrow> Inr t
      | None \<Rightarrow>
     (case tryJsonp H N src of
        Some t \<Rightarrow> Inr t
      | None \<Rightarrow>
     (case tryCsv H N src of
        Some t \<Rightarrow> Inr t
      | None \<Rightarrow>
          if sheet src \<noteq> [] then
            (case fetchOpenSheet N src of
               Rejected e \<Rightarrow> Inl e
             | Fulfilled openSheetResponse \<Rightarrow>
                 if ok openSheetResponse then
                   (case responseJson N (body openSheetResponse) of
                      Inl e \<Rightarrow> Inl e
                    | Inr None \<Rightarrow> Inl unavailable
                    | Inr (Some []) \<Rightarrow> Inl unavailable
                    | Inr (Some (firstRow # others)) \<Rightarrow>
                        Inr (mapRecords H firstRow (firstRow # others)))
                 else Inl unavailable)
          else Inl unavailable)))"

text \<open>
  A network for concrete runs: every request fails, as when the browser is offline.
\<close>

definition failedFetch :: "source \<Rightarrow> response outcome" where
  "failedFetch src = Rejected (TypeError ''Failed to fetch'')"

definition failedJsonp :: "source \<Rightarrow> nat payload outcome" where
  "failedJsonp src = Rejected (Error ''Could not load sheet data via JSONP.'')"

definition noPayload :: "jsstring \<Rightarrow> error + nat payload" where
  "noPayload text = Inl (SyntaxError ''Unexpected end of JSON input'')"

definition noRecords :: "jsstring \<Rightarrow> error + nat jsobject list option" where
  "noRecords text = Inl (SyntaxError ''Unexpected end of JSON input'')"

definition offlineNetwork :: "nat network" where
  "offlineNetwork =
     \<lparr>fetchGviz = failedFetch, JSON_parse = noPayload, loadJsonp = failedJsonp,
      fetchCsv = failedFetch, fetchOpenSheet = failedFetch, responseJson = noRecords\<rparr>"


section \<open>The link resolver\<close>

text \<open>
  The browser's \<^verbatim>\<open>URL\<close> and \<^verbatim>\<open>URLSearchParams\<close> constructors are parameters:
  \<open>new_URL\<close> gives the parsed address, or \<open>None\<close> where the constructor throws,
  and \<open>parseParams\<close> gives the name and value pairs of a query text.
  \<^verbatim>\<open>searchParams.get\<close> is the first value under a name.
\<close>

record url =
  href :: jsstring
  hostname :: jsstring
  pathname :: jsstring
  searchParams :: "(jsstring \<times> jsstring) list"
  hash :: jsstring

record browser =
  new_URL :: "jsstring \<Rightarrow> url option"
  parseParams :: "jsstring \<Rightarrow> (jsstring \<times> jsstring) list"

record link =
  raw :: jsstring
  link_url :: url
  displayUrl :: jsstring

text \<open>
  A browser for concrete runs: its \<^verbatim>\<open>URL\<close> reads an address of the form
  \<^verbatim>\<open>http(s)://host/path\<close>, with no query and no fragment (47 is the slash).
\<close>

definition simpleURL :: "jsstring \<Rightarrow> url option" where
  "simpleURL s =
     (let r = (if startsWith (asciiLowerCase s) (js ''https://'') then drop 8 s
               else if startsWith (asciiLowerCase s) (js ''http://'') then drop 7 s
               else [])
      in if takeWhile (\<lambda>c. c \<noteq> 47) r = [] then None
         else Some \<lparr>href = s,
                    hostname = takeWhile (\<lambda>c. c \<noteq> 47) r,
                    pathname = (if dropWhile (\<lambda>c. c \<noteq> 47) r = [] then js ''/''
                                else dropWhile (\<lambda>c. c \<noteq> 47) r),
                    searchParams = [], hash = []\<rparr>)"

definition noParams :: "jsstring \<Rightarrow> (jsstring \<times> jsstring) list" where
  "noParams q = []"

definition exampleBrowser :: browser where
  "exampleBrowser = \<lparr>new_URL = simpleURL, parseParams = noParams\<rparr>"

fun matchAt :: "jsstring list \<Rightarrow> nat \<Rightarrow> jsstring \<Rightarrow> jsstring option" where
  \<comment> \<open>one of the literals, then at least \<open>n\<close> characters of \<^verbatim>\<open>[a-zA-Z0-9-_]\<close>, at the
     start of the text: the captured run, as long as it can be\<close>
  "matchAt [] n t = None"
| "matchAt (lit # lits) n t =
     (if startsWith t lit \<and> n \<le> length (takeWhile isIdChar (drop (length lit) t))
      then Some (takeWhile isIdChar (drop (length lit) t))
      else matchAt lits n t)"

fun regexSearch :: "jsstring list \<Rightarrow> nat \<Rightarrow> jsstring \<Rightarrow> jsstring option" where
  \<comment> \<open>\<^verbatim>\<open>text.match(pattern)\<close>: the leftmost position where the pattern matches\<close>
  "regexSearch lits n [] = matchAt lits n []"
| "regexSearch lits n (c # t) =
     (case matchAt lits n (c # t) of
        Some m \<Rightarrow> Some m
      | None \<Rightarrow> regexSearch lits n t)"

definition extractSheetIdFromRaw :: "jsstring \<Rightarrow> jsstring" where
  \<comment> \<open>lines 77 to 94\<close>
  "extractSheetIdFromRaw text =
     (case regexSearch [js ''/spreadsheets/d/''] 20 text of
        Some m \<Rightarrow> m
      | None \<Rightarrow>
     (case regexSearch [js ''?id='', js ''&id=''] 20 text of
        Some m \<Rightarrow> m
      | None \<Rightarrow>
     (case regexSearch [js ''?key='', js ''&key=''] 20 text of
        Some m \<Rightarrow> m
      | None \<Rightarrow>
     (case regexSearch [js ''/file/d/''] 20 text of
        Some m \<Rightarrow> m
      | None \<Rightarrow> []))))"

definition getParam :: "(jsstring \<times> jsstring) list \<Rightarrow> jsstring \<Rightarrow> jsstring" where
  \<comment> \<open>\<^verbatim>\<open>params.get(name) || ""\<close>\<close>
  "getParam ps name = (case map_of ps name of None \<Rightarrow> [] | Some x \<Rightarrow> x)"

definition extractSheetId :: "url \<Rightarrow> jsstring" where
  \<comment> \<open>lines 96 to 118\<close>
  "extractSheetId u =
     (case regexSearch [js ''/spreadsheets/d/''] 1 (pathname u) of
        Some m \<Rightarrow> m
      | None \<Rightarrow>
     (case regexSearch [js ''/file/d/''] 1 (pathname u) of
        Some m \<Rightarrow> m
      | None \<Rightarrow>
          if trim (getParam (searchParams u) (js ''id'')) \<noteq> []
          then trim (getParam (searchParams u) (js ''id''))
          else if trim (getParam (searchParams u) (js ''key'')) \<noteq> []
          then trim (getParam (searchParams u) (js ''key''))
          else []))"

definition sheetUrl :: "jsstring \<Rightarrow> jsstring" where
  \<comment> \<open>the template literal of lines 48 and 63\<close>
  "sheetUrl ident = js ''https://docs.google.com/spreadsheets/d/'' @ ident @ js ''/edit''"

definition parseGoogleSheetLink :: "browser \<Rightarrow> jsstring \<Rightarrow> error + link" where
  \<comment> \<open>lines 40 to 75; the test \<^verbatim>\<open>/^https?:\/\//i\<close> ignores the case of ASCII letters\<close>
  "parseGoogleSheetLink B rawValue =
     (let trimmed = trim rawValue in
      if trimmed = [] then Inl (Error ''Please paste a Google Sheets link.'')
      else if 30 \<le> length trimmed \<and> list_all isIdChar trimmed then
        (case new_URL B (sheetUrl trimmed) of
           None \<Rightarrow> Inl (TypeError ''Invalid URL'')
         | Some u \<Rightarrow> Inr \<lparr>raw = trimmed, link_url = u, displayUrl = href u\<rparr>)
      else
        (let withProtocol =
               (if startsWith (asciiLowerCase trimmed) (js ''http://'') \<or>
                   startsWith (asciiLowerCase trimmed) (js ''https://'')
                then trimmed else js ''https://'' @ trimmed)
         in case (case new_URL B withProtocol of
                    Some u \<Rightarrow> Inr u
                  | None \<Rightarrow>
                      if extractSheetIdFromRaw trimmed = []
                      then Inl (Error ''Invalid URL. Paste a valid Google Sheets link.'')
                      else (case new_URL B (sheetUrl (extractSheetIdFromRaw trimmed)) of
                              None \<Rightarrow> Inl (TypeError ''Invalid URL'')
                            | Some u \<Rightarrow> Inr u)) of
              Inl e \<Rightarrow> Inl e
            | Inr u \<Rightarrow>
                (let isDocsHost = (hostname u = js ''docs.google.com'' \<or>
                                   endsWith (hostname u) (js ''.docs.google.com''));
                     isDriveHost = (hostname u = js ''drive.google.com'' \<or>
                                    endsWith (hostname u) (js ''.drive.google.com''));
                     hasRawId = (extractSheetId u \<noteq> [] \<or> extractSheetIdFromRaw trimmed \<noteq> [])
                 in if (\<not> isDocsHost \<and> \<not> isDriveHost) \<and> \<not> hasRawId
                    then Inl (Error ''Only Google Sheets links are supported.'')
                    else Inr \<lparr>raw = trimmed, link_url = u, displayUrl = withProtocol\<rparr>)))"

definition getSheetSource :: "browser \<Rightarrow> url \<Rightarrow> jsstring \<Rightarrow> error + source" where
  \<comment> \<open>lines 120 to 133\<close>
  "getSheetSource B u rawValue =
     (let ident = (if extractSheetId u \<noteq> [] then extractSheetId u
                   else extractSheetIdFromRaw rawValue)
      in if ident = [] then Inl (Error ''Unable to read this Google Sheets link.'')
         else
           (let hashParams =
                  parseParams B (if startsWith (hash u) (js ''#'') then drop 1 (hash u) else hash u)
            in Inr \<lparr>sheetId = ident,
                     gid = trim (if getParam (searchParams u) (js ''gid'') \<noteq> []
                                 then getParam (searchParams u) (js ''gid'')
                                 else getParam hashParams (js ''gid'')),
                     sheet = trim (if getParam (searchParams u) (js ''sheet'') \<noteq> []
                                   then getParam (searchParams u) (js ''sheet'')
                                   else getParam hashParams (js ''sheet''))\<rparr>))"

definition resolveLink :: "browser \<Rightarrow> jsstring \<Rightarrow> error + source" where
  \<comment> \<open>the link resolver as the page runs it: \<^verbatim>\<open>parseGoogleSheetLink\<close> in
     \<^verbatim>\<open>handleSubmit\<close> (line 580), then \<^verbatim>\<open>getSheetSource\<close> in \<^verbatim>\<open>loadSheetData\<close>
     (line 557)\<close>
  "resolveLink B rawValue =
     (case parseGoogleSheetLink B rawValue of
        Inl e \<Rightarrow> Inl e
      | Inr parsed \<Rightarrow> getSheetSource B (link_url parsed) (raw parsed))"


section \<open>The facet resolver\<close>

definition COLUMN_ALIASES_system :: "jsstring list" where
  "COLUMN_ALIASES_system =
     [js ''system'', js ''project name'', js ''system project name'',
      js ''system (project name)'']"

definition COLUMN_ALIASES_milestone :: "jsstring list" where
  "COLUMN_ALIASES_milestone = [js ''milestone'', js ''next milestone'']"

definition COLUMN_ALIASES_developer :: "jsstring list" where
  "COLUMN_ALIASES_developer = [js ''assigned developer'', js ''developer'']"

definition COLUMN_ALIASES_manager :: "jsstring list" where
  "COLUMN_ALIASES_manager = [js ''assigned project manager'', js ''project manager'']"

text \<open>
  \<^verbatim>\<open>findColumnKey\<close> (lines 379 to 393) runs two loops over the normalized aliases: the
  first looks for a column whose key is the alias, the second for a column whose key
  contains the alias or is contained in it.
\<close>

fun exactLoop :: "column list \<Rightarrow> jsstring list \<Rightarrow> jsstring option" where
  "exactLoop cols [] = None"
| "exactLoop cols (alias # rest) =
     (case find (\<lambda>col. key col = alias) cols of
        Some exact \<Rightarrow> Some (key exact)
      | None \<Rightarrow> exactLoop cols rest)"

fun partialLoop :: "column list \<Rightarrow> jsstring list \<Rightarrow> jsstring option" where
  "partialLoop cols [] = None"
| "partialLoop cols (alias # rest) =
     (case find (\<lambda>col. includesStr (key col) alias \<or> includesStr alias (key col)) cols of
        Some partial \<Rightarrow> Some (key partial)
      | None \<Rightarrow> partialLoop cols rest)"

definition findColumnKey :: "'n host \<Rightarrow> column list \<Rightarrow> jsstring list \<Rightarrow> jsstring" where
  "findColumnKey H cols aliases =
     (let normalizedAliases = map (normalizeHeader H) aliases in
      case exactLoop cols normalizedAliases of
        Some k \<Rightarrow> k
      | None \<Rightarrow>
          (case partialLoop cols normalizedAliases of
             Some k \<Rightarrow> k
           | None \<Rightarrow> []))"

record filterColumns =
  col_system :: jsstring
  col_milestone :: jsstring
  col_developer :: jsstring
  col_manager :: jsstring

definition keyAt :: "column list \<Rightarrow> nat \<Rightarrow> jsstring" where
  \<comment> \<open>\<^verbatim>\<open>columns[i]?.key || ""\<close>\<close>
  "keyAt cols i = (if i < length cols then key (cols ! i) else [])"

definition determineFilterColumns :: "'n host \<Rightarrow> column list \<Rightarrow> filterColumns" where
  \<comment> \<open>lines 426 to 438\<close>
  "determineFilterColumns H cols =
     \<lparr>col_system =
        (if findColumnKey H cols COLUMN_ALIASES_system \<noteq> []
         then findColumnKey H cols COLUMN_ALIASES_system
         else keyAt cols 0),
      col_milestone =
        (if findColumnKey H cols COLUMN_ALIASES_milestone \<noteq> []
         then findColumnKey H cols COLUMN_ALIASES_milestone
         else if keyAt cols 1 \<noteq> [] then keyAt cols 1
         else keyAt cols 0),
      col_developer = findColumnKey H cols COLUMN_ALIASES_developer,
      col_manager = findColumnKey H cols COLUMN_ALIASES_manager\<rparr>"


section \<open>The view state and its filters\<close>

record filters =
  filter_system :: jsstring
  filter_milestone :: jsstring
  filter_search :: jsstring

record state =
  st_columns :: "column list"
  st_rows :: "row list"
  st_filteredRows :: "row list"
  st_filters :: filters
  st_filterColumns :: filterColumns

definition rowGet :: "'n host \<Rightarrow> row \<Rightarrow> jsstring \<Rightarrow> jsstring" where
  \<comment> \<open>\<^verbatim>\<open>String(row[key] ?? "")\<close>; a row is a plain object, so a name it does not hold
     reads what the object inherits\<close>
  "rowGet H r k =
     (case r k of
        Some x \<Rightarrow> x
      | None \<Rightarrow> (case inheritedText H k of None \<Rightarrow> [] | Some s \<Rightarrow> s))"

definition rowMatchesSearch :: "'n host \<Rightarrow> state \<Rightarrow> row \<Rightarrow> jsstring \<Rightarrow> bool" where
  \<comment> \<open>lines 477 to 488\<close>
  "rowMatchesSearch H st r query =
     (if query = [] then True
      else list_ex (\<lambda>k. includesStr (toLowerCase H (rowGet H r k)) query)
             (filter (\<lambda>k. k \<noteq> [])
                [col_system (st_filterColumns st), col_milestone (st_filterColumns st),
                 col_developer (st_filterColumns st), col_manager (st_filterColumns st)]))"

definition applyFilters :: "'n host \<Rightarrow> state \<Rightarrow> state" where
  \<comment> \<open>lines 520 to 537; the two render calls write to the page only\<close>
  "applyFilters H st =
     (let searchQuery = toLowerCase H (trim (filter_search (st_filters st))) in
      st\<lparr>st_filteredRows :=
           filter (\<lambda>r.
                     if filter_system (st_filters st) \<noteq> [] \<and>
                        rowGet H r (col_system (st_filterColumns st)) \<noteq>
                          filter_system (st_filters st)
                     then False
                     else if filter_milestone (st_filters st) \<noteq> [] \<and>
                        rowGet H r (col_milestone (st_filterColumns st)) \<noteq>
                          filter_milestone (st_filters st)
                     then False
                     else rowMatchesSearch H st r searchQuery)
             (st_rows st)\<rparr>)"

text \<open>A state for concrete runs: two rows, with the selections and the search text given.\<close>

definition rowA :: row where
  "rowA = [js ''system'' \<mapsto> js ''A'', js ''milestone'' \<mapsto> js ''M1'']"

definition rowB :: row where
  "rowB = [js ''system'' \<mapsto> js ''B'', js ''milestone'' \<mapsto> js ''M1'']"

definition exampleState :: "jsstring \<Rightarrow> jsstring \<Rightarrow> jsstring \<Rightarrow> state" where
  "exampleState system milestone search =
     \<lparr>st_columns = [\<lparr>key = js ''system'', label = js ''System'', type = js ''string''\<rparr>,
                     \<lparr>key = js ''milestone'', label = js ''Milestone'', type = js ''string''\<rparr>],
      st_rows = [rowA, rowB],
      st_filteredRows = [],
      st_filters = \<lparr>filter_system = system, filter_milestone = milestone, filter_search = search\<rparr>,
      st_filterColumns = \<lparr>col_system = js ''system'', col_milestone = js ''milestone'',
                           col_developer = [], col_manager = []\<rparr>\<rparr>"


section \<open>Evaluating the string functions\<close>

lemmas string_simps =
  trim_def isSpace_def asciiLowerCase_def isLowerAlnum_def startsWith_def

lemma toLowerCase_ascii:
  "list_all (\<lambda>c. c < 128) s \<Longrightarrow> toLowerCase H s = asciiLowerCase s"
  by (simp add: toLowerCase_def)

lemma normalizeHeader_examples:
  "normalizeHeader H [] = []" "normalizeHeader H (js ''a'') = js ''a''"
  "normalizeHeader H (js ''b'') = js ''b''" "normalizeHeader H (js ''b,c'') = js ''b c''"
  "normalizeHeader H (js ''d'') = js ''d''" "normalizeHeader H (js ''Name'') = js ''name''"
  "normalizeHeader H (js ''name'') = js ''name''"
  by (simp_all add: normalizeHeader_def toLowerCase_def string_simps)

lemma showNat_small: "n < 10 \<Longrightarrow> showNat n = [48 + n]"
  by (subst showNat.simps) simp


section \<open>The CSV line parser is total\<close>

lemma parseCsvLoop_nonempty: "parseCsvLoop line vs cur q \<noteq> []"
  by (induction line vs cur q rule: parseCsvLoop.induct) (auto split: list.splits)

lemma parseCsvLoop_open_quote:
  "dquote \<notin> set rest \<Longrightarrow> parseCsvLoop rest vs cur True = vs @ [cur @ rest]"
  by (induction rest arbitrary: cur) (auto split: list.splits)

lemma parseCsvLoop_unterminated:
  "dquote \<notin> set pre \<Longrightarrow> dquote \<notin> set rest \<Longrightarrow>
   parseCsvLoop (pre @ dquote # rest) vs cur False =
     butlast (parseCsvLoop pre vs cur False) @ [last (parseCsvLoop pre vs cur False) @ rest]"
proof (induction pre arbitrary: vs cur)
  case Nil
  then show ?case by (cases rest) (auto simp: parseCsvLoop_open_quote)
next
  case (Cons c pre)
  then show ?case by auto
qed

text \<open>
  C10. \<^verbatim>\<open>parseCsvLine\<close> is a total function with no failing branch, and it returns
  at least one field for every line. A quote that is never closed takes the rest of the
  line into the current field, commas included: when a line has a single quote
  character, the fields before it are split as usual and the field the quote opens in
  runs to the end of the line.
\<close>

theorem parseCsvLine_total:
  "1 \<le> length (parseCsvLine line) \<and>
   (dquote \<notin> set pre \<and> dquote \<notin> set rest \<longrightarrow>
      parseCsvLine (pre @ dquote # rest) =
        butlast (parseCsvLine pre) @ [last (parseCsvLine pre) @ rest])"
proof -
  have "parseCsvLine line \<noteq> []"
    by (simp add: parseCsvLine_def parseCsvLoop_nonempty)
  then have "1 \<le> length (parseCsvLine line)"
    by (cases "parseCsvLine line") simp_all
  then show ?thesis
    by (simp add: parseCsvLine_def parseCsvLoop_unterminated)
qed

theorem parseCsvLine_total_witness:
  "1 \<le> length (parseCsvLine []) \<and>
   dquote \<notin> set (js ''a,b'') \<and> dquote \<notin> set (js ''c,d,e'') \<and>
   parseCsvLine ((js ''a,b'') @ dquote # (js ''c,d,e'')) = [js ''a'', js ''bc,d,e'']"
  using parseCsvLine_total [of "[]" "(js ''a,b'')" "(js ''c,d,e'')"]
  by (simp add: parseCsvLine_def)


section \<open>CSV normalization\<close>



















section \<open>Column keys\<close>

text \<open>\<^verbatim>\<open>showNat\<close> is one-to-one: the digits give the number back.\<close>

lemma Number_snoc: "Number (s @ [c]) = 10 * Number s + (c - 48)"
  by (simp add: Number_def)

lemma Number_showNat: "Number (showNat n) = n"
proof (induction n rule: showNat.induct)
  case (1 n)
  show ?case
  proof (cases "n < 10")
    case True
    then show ?thesis
      by (subst showNat.simps) (simp add: Number_def)
  next
    case False
    with 1 have "Number (showNat (n div 10)) = n div 10" by simp
    with False show ?thesis
      by (subst showNat.simps) (simp add: Number_snoc)
  qed
qed

lemma showNat_inj: "showNat a = showNat b \<Longrightarrow> a = b"
  by (metis Number_showNat)

text \<open>The keys of the three shapes.\<close>

lemma columnKeys_nth:
  "i < length hs \<Longrightarrow>
   map (\<lambda>(index, h). columnKey H h index) (enumerate 0 hs) ! i = columnKey H (hs ! i) i"
  by (simp add: nth_enumerate_eq)

lemma columnKey_neq:
  assumes A: "\<forall>i j. i < j \<and> j < length hs \<and> normalizeHeader H (hs ! i) = normalizeHeader H (hs ! j)
                \<longrightarrow> normalizeHeader H (hs ! i) = []"
    and B: "\<forall>i j. i < length hs \<and> j < length hs \<and> normalizeHeader H (hs ! i) = []
                \<longrightarrow> normalizeHeader H (hs ! j) \<noteq> (js ''column '') @ showNat (i + 1)"
    and ij: "i < j" "j < length hs"
  shows "columnKey H (hs ! i) i \<noteq> columnKey H (hs ! j) j"
proof
  assume eq: "columnKey H (hs ! i) i = columnKey H (hs ! j) j"
  have il: "i < length hs" using ij by simp
  show False
  proof (cases "normalizeHeader H (hs ! i) = []")
    case ei: True
    show False
    proof (cases "normalizeHeader H (hs ! j) = []")
      case True
      with ei eq have "showNat (i + 1) = showNat (j + 1)" by (simp add: columnKey_def)
      then have "i + 1 = j + 1" by (rule showNat_inj)
      with ij show False by simp
    next
      case False
      with ei eq have "normalizeHeader H (hs ! j) = (js ''column '') @ showNat (i + 1)"
        by (simp add: columnKey_def)
      with B il ij(2) ei show False by blast
    qed
  next
    case ni: False
    show False
    proof (cases "normalizeHeader H (hs ! j) = []")
      case True
      with ni eq have "normalizeHeader H (hs ! i) = (js ''column '') @ showNat (j + 1)"
        by (simp add: columnKey_def)
      with B il ij(2) True show False by blast
    next
      case False
      with ni eq have "normalizeHeader H (hs ! i) = normalizeHeader H (hs ! j)"
        by (simp add: columnKey_def)
      with A ij ni show False by blast
    qed
  qed
qed

lemma columnKeys_distinct:
  assumes A: "\<forall>i j. i < j \<and> j < length hs \<and> normalizeHeader H (hs ! i) = normalizeHeader H (hs ! j)
                \<longrightarrow> normalizeHeader H (hs ! i) = []"
    and B: "\<forall>i j. i < length hs \<and> j < length hs \<and> normalizeHeader H (hs ! i) = []
                \<longrightarrow> normalizeHeader H (hs ! j) \<noteq> (js ''column '') @ showNat (i + 1)"
  shows "distinct (map (\<lambda>(index, h). columnKey H h index) (enumerate 0 hs))"
proof -
  let ?ks = "map (\<lambda>(index, h). columnKey H h index) (enumerate 0 hs)"
  have len: "length ?ks = length hs" by simp
  have "\<And>i j. i < length ?ks \<Longrightarrow> j < length ?ks \<Longrightarrow> i \<noteq> j \<Longrightarrow> ?ks ! i \<noteq> ?ks ! j"
  proof -
    fix i j assume i: "i < length ?ks" and j: "j < length ?ks" and "i \<noteq> j"
    then consider "i < j" | "j < i" by linarith
    then show "?ks ! i \<noteq> ?ks ! j"
    proof cases
      case 1
      with columnKey_neq [OF A B 1] i j show ?thesis
        by (simp add: nth_enumerate_eq)
    next
      case 2
      with columnKey_neq [OF A B 2] i j show ?thesis
        by (simp add: nth_enumerate_eq)
    qed
  qed
  then show ?thesis by (simp only: distinct_conv_nth) blast
qed

lemma enumerate_map_snd:
  "enumerate n (map f xs) = map (\<lambda>(i, x). (i, f x)) (enumerate n xs)"
  by (induction xs arbitrary: n) auto

lemma keys_mapPayload:
  "map key (columns (mapPayload H p)) =
     map (\<lambda>(index, h). columnKey H h index) (enumerate 0 (map labelText (payloadCols p)))"
  by (simp add: mapPayload_def Let_def split_def o_def enumerate_map_snd del: fun_upd_apply)

lemma keys_parseCsvText:
  "parseCsvText H text = Inr t \<Longrightarrow> csvLines text = first # others \<Longrightarrow>
   map key (columns t) = map (\<lambda>(index, h). columnKey H h index) (enumerate 0 (parseCsvLine first))"
  by (auto simp add: parseCsvText_def Let_def split_def)

lemma keys_mapRecords:
  "map key (columns (mapRecords H firstRow rws)) =
     map (\<lambda>(index, h). columnKey H h index) (enumerate 0 (map fst firstRow))"
  by (simp add: mapRecords_def Let_def split_def)


text \<open>
  C1, as the code has it. In each of the three shapes the key of a column is the
  normalized header, or the placeholder \<^verbatim>\<open>column N\<close> (\<open>N\<close> the position, from one)
  when the normalized header is empty; nothing is appended when two keys collide. The
  keys of a table are pairwise distinct whenever no two headers have the same non-empty
  normalized text and no header normalizes to the placeholder of a column whose
  normalized header is empty.
\<close>

theorem column_keys_positional:
  assumes "(t = mapPayload H p \<and> hs = map labelText (payloadCols p)) \<or>
           (parseCsvText H csvText = Inr t \<and> csvLines csvText = first # others \<and>
              hs = parseCsvLine first) \<or>
           (t = mapRecords H firstRow rws \<and> hs = map fst firstRow)"
  shows "map key (columns t) =
           map (\<lambda>(index, h). if normalizeHeader H h \<noteq> [] then normalizeHeader H h
                              else (js ''column '') @ showNat (index + 1))
             (enumerate 0 hs) \<and>
         ((\<forall>i j. i < j \<and> j < length hs \<and> normalizeHeader H (hs ! i) = normalizeHeader H (hs ! j)
               \<longrightarrow> normalizeHeader H (hs ! i) = []) \<and>
          (\<forall>i j. i < length hs \<and> j < length hs \<and> normalizeHeader H (hs ! i) = []
               \<longrightarrow> normalizeHeader H (hs ! j) \<noteq> (js ''column '') @ showNat (i + 1))
          \<longrightarrow> distinct (map key (columns t)))"
proof -
  have keys: "map key (columns t) = map (\<lambda>(index, h). columnKey H h index) (enumerate 0 hs)"
    using assms keys_mapPayload [of H p] keys_parseCsvText [of H csvText t first others]
      keys_mapRecords [of H firstRow rws]
    by (elim disjE conjE) simp_all
  also have "map (\<lambda>(index, h). columnKey H h index) (enumerate 0 hs) =
        map (\<lambda>(index, h). if normalizeHeader H h \<noteq> [] then normalizeHeader H h
                           else (js ''column '') @ showNat (index + 1))
          (enumerate 0 hs)"
    by (simp add: columnKey_def)
  finally have keys': "map key (columns t) =
        map (\<lambda>(index, h). if normalizeHeader H h \<noteq> [] then normalizeHeader H h
                           else (js ''column '') @ showNat (index + 1))
          (enumerate 0 hs)" .
  show ?thesis
  proof (intro conjI impI)
    show "map key (columns t) =
        map (\<lambda>(index, h). if normalizeHeader H h \<noteq> [] then normalizeHeader H h
                           else (js ''column '') @ showNat (index + 1))
          (enumerate 0 hs)"
      by (rule keys')
  next
    assume "(\<forall>i j. i < j \<and> j < length hs \<and> normalizeHeader H (hs ! i) = normalizeHeader H (hs ! j)
               \<longrightarrow> normalizeHeader H (hs ! i) = []) \<and>
          (\<forall>i j. i < length hs \<and> j < length hs \<and> normalizeHeader H (hs ! i) = []
               \<longrightarrow> normalizeHeader H (hs ! j) \<noteq> (js ''column '') @ showNat (i + 1))"
    then have "distinct (map (\<lambda>(index, h). columnKey H h index) (enumerate 0 hs))"
      by (intro columnKeys_distinct) (elim conjE, assumption)+
    then show "distinct (map key (columns t))"
      by (simp only: keys)
  qed
qed

theorem column_keys_positional_witness:
  "parseCsvText exampleHost (js ''a,,b'') =
     Inr \<lparr>columns = [\<lparr>key = js ''a'', label = js ''a'', type = js ''string''\<rparr>,
                      \<lparr>key = js ''column 2'', label = js ''Column 2'', type = js ''string''\<rparr>,
                      \<lparr>key = js ''b'', label = js ''b'', type = js ''string''\<rparr>], rows = []\<rparr> \<and>
   csvLines (js ''a,,b'') = [js ''a,,b''] \<and> parseCsvLine (js ''a,,b'') = [js ''a'', [], js ''b''] \<and>
   distinct [js ''a'', js ''column 2'', js ''b'']"
proof -
  let ?t = "\<lparr>columns = [\<lparr>key = js ''a'', label = js ''a'', type = js ''string''\<rparr>,
                      \<lparr>key = js ''column 2'', label = js ''Column 2'', type = js ''string''\<rparr>,
                      \<lparr>key = js ''b'', label = js ''b'', type = js ''string''\<rparr>], rows = []\<rparr>"
  let ?hs = "[js ''a'', [], js ''b'']"
  have l: "csvLines (js ''a,,b'') = [js ''a,,b'']"
    by (simp add: csvLines_def stripBOM_def string_simps)
  have h: "parseCsvLine (js ''a,,b'') = ?hs"
    by (simp add: parseCsvLine_def)
  have p: "parseCsvText exampleHost (js ''a,,b'') = Inr ?t"
    using l h
    by (simp add: parseCsvText_def columnKey_def columnLabel_def
        normalizeHeader_examples [simplified]
        showNat_small enumerate_eq_zip trim_def isSpace_def)
  have A: "\<forall>i j. i < j \<and> j < length ?hs \<and> normalizeHeader exampleHost (?hs ! i) = normalizeHeader exampleHost (?hs ! j)
               \<longrightarrow> normalizeHeader exampleHost (?hs ! i) = []"
    by (auto simp: nth_Cons' normalizeHeader_examples [simplified])
  have B: "\<forall>i j. i < length ?hs \<and> j < length ?hs \<and> normalizeHeader exampleHost (?hs ! i) = []
               \<longrightarrow> normalizeHeader exampleHost (?hs ! j) \<noteq> (js ''column '') @ showNat (i + 1)"
    by (auto simp: nth_Cons' normalizeHeader_examples [simplified])
  have d: "(?t = mapPayload exampleHost p \<and> ?hs = map labelText (payloadCols p)) \<or>
           (parseCsvText exampleHost (js ''a,,b'') = Inr ?t \<and> csvLines (js ''a,,b'') = (js ''a,,b'') # [] \<and>
              ?hs = parseCsvLine (js ''a,,b'')) \<or>
           (?t = mapRecords exampleHost firstRow rws \<and> ?hs = map fst firstRow)"
    using p l h by simp
  from column_keys_positional [OF d] A B have "distinct (map key (columns ?t))"
    by blast
  with p l h show ?thesis by simp
qed

text \<open>
  C1 as written fails on two headers with the same normalized text: the CSV header line
  \<^verbatim>\<open>Name,name\<close> gives two columns with the key \<^verbatim>\<open>name\<close>. So does, on the example
  host, the header line of U+0130 \<^verbatim>\<open>d\<close> and \<^verbatim>\<open>i d\<close>: the lower case of U+0130 ends
  with the combining dot U+0307, which becomes a space, and both keys are \<^verbatim>\<open>i d\<close>.
\<close>

theorem column_keys_collide:
  "parseCsvText exampleHost (js ''Name,name'') =
     Inr \<lparr>columns = [\<lparr>key = js ''name'', label = js ''Name'', type = js ''string''\<rparr>,
                      \<lparr>key = js ''name'', label = js ''name'', type = js ''string''\<rparr>], rows = []\<rparr> \<and>
   \<not> distinct (map key [\<lparr>key = js ''name'', label = js ''Name'', type = js ''string''\<rparr>,
                          \<lparr>key = js ''name'', label = js ''name'', type = js ''string''\<rparr>]) \<and>
   parseCsvText exampleHost (304 # js ''d,i d'') =
     Inr \<lparr>columns = [\<lparr>key = js ''i d'', label = [304, 100], type = js ''string''\<rparr>,
                      \<lparr>key = js ''i d'', label = js ''i d'', type = js ''string''\<rparr>], rows = []\<rparr>"
  by (simp add: parseCsvText_def csvLines_def stripBOM_def string_simps parseCsvLine_def
      columnLabel_def columnKey_def normalizeHeader_def toLowerCase_def exampleHost_def
      exampleLowerCase_def Let_def enumerate_eq_zip)


section \<open>Typed-cell formatting\<close>

lemma digitRun_digits:
  assumes "y \<noteq> []" and "list_all isDigit y" and "rest = [] \<or> \<not> isDigit (hd rest)"
  shows "digitRun (y @ rest) = Some (y, rest)"
proof -
  have a: "\<And>x. x \<in> set y \<Longrightarrow> isDigit x"
    using assms(2) by (simp add: list_all_iff)
  have t: "takeWhile isDigit rest = []" and d: "dropWhile isDigit rest = rest"
    using assms(3) by (cases rest; simp)+
  have "takeWhile isDigit (y @ rest) = y"
    using a t by (simp add: takeWhile_append2)
  moreover have "dropWhile isDigit (y @ rest) = rest"
    using a d by (simp add: dropWhile_append2)
  ultimately show ?thesis
    using assms(1) by (simp add: digitRun_def)
qed

lemma not_digit_comma: "\<not> isDigit (comma)"
  by (simp add: isDigit_def)

lemma matchDate_pattern:
  assumes "y \<noteq> []" "list_all isDigit y" "m \<noteq> []" "list_all isDigit m"
    "d \<noteq> []" "list_all isDigit d" "rest = [] \<or> \<not> isDigit (hd rest)"
  shows "matchDate ((js ''Date('') @ y @ (js '','') @ m @ (js '','') @ d @ rest) = Some (y, m, d)"
proof -
  have 1: "digitRun (y @ comma # m @ comma # d @ rest) = Some (y, comma # m @ comma # d @ rest)"
    using assms(1,2) by (intro digitRun_digits) (simp_all add: not_digit_comma)
  have 2: "digitRun (m @ comma # d @ rest) = Some (m, comma # d @ rest)"
    using assms(3,4) by (intro digitRun_digits) (simp_all add: not_digit_comma)
  have 3: "digitRun (d @ rest) = Some (d, rest)"
    using assms(5,6,7) by (intro digitRun_digits)
  show ?thesis
    by (simp add: matchDate_def startsWith_def 1 2 3)
qed

lemma Number_examples: "Number (js ''2024'') = 2024" "Number (js ''0'') = 0" "Number (js ''15'') = 15"
  by (simp_all add: Number_def)

lemma formatCellValue_example:
  "formatCellValue H (Some \<lparr>cell_v = Str (js ''Date(2024,0,15)''), cell_f = None\<rparr>) (js ''date'') =
     toLocaleDateString H 2024 0 15"
proof -
  have "matchDate ((js ''Date('') @ (js ''2024'') @ (js '','') @ (js ''0'') @ (js '','') @ (js ''15'') @ (js '')'')) = Some ((js ''2024''), js ''0'', js ''15'')"
    by (rule matchDate_pattern) (simp_all add: isDigit_def)
  then show ?thesis
    by (simp add: formatCellValue_def Number_def)
qed

lemma showNat_examples:
  "showNat 2024 = js ''2024''" "showNat 15 = js ''15''" "showNat 42 = js ''42''"
  by (simp_all add: showNat.simps)

text \<open>
  C4, as the code has it. An absent cell formats to the empty string. A display value
  with a character that is not white space is used as it is. Otherwise (no display
  value, or only white space in it): a \<^verbatim>\<open>null\<close> or absent raw value formats to the
  empty string; a raw value \<^verbatim>\<open>Date(Y,M,D...)\<close> in a column of type \<^verbatim>\<open>date\<close>, with
  \<open>Y\<close>, \<open>M\<close> and \<open>D\<close> runs of digits, formats to the browser's date text for the
  year \<open>Y\<close>, the zero-based month \<open>M\<close> and the day \<open>D\<close>; every other raw value is
  stringified. The raw value \<^verbatim>\<open>Date(2024,0,15)\<close> with no display value formats to the
  date text for the year 2024, month 0 and day 15.
\<close>

theorem formatCellValue_cases:
  "formatCellValue H None ty = [] \<and>
   (cell_f cl = Some s \<and> trim s \<noteq> [] \<longrightarrow> formatCellValue H (Some cl) ty = s) \<and>
   (cell_f cl = None \<or> (\<exists>s. cell_f cl = Some s \<and> trim s = []) \<longrightarrow>
      (cell_v cl = Null \<longrightarrow> formatCellValue H (Some cl) ty = []) \<and>
      (ty = js ''date'' \<and> cell_v cl = Str ((js ''Date('') @ y @ (js '','') @ m @ (js '','') @ d @ rest) \<and>
       y \<noteq> [] \<and> list_all isDigit y \<and> m \<noteq> [] \<and> list_all isDigit m \<and>
       d \<noteq> [] \<and> list_all isDigit d \<and> (rest = [] \<or> \<not> isDigit (hd rest)) \<longrightarrow>
         formatCellValue H (Some cl) ty = toLocaleDateString H (Number y) (Number m) (Number d)) \<and>
      (cell_v cl \<noteq> Null \<and> (ty \<noteq> (js ''date'') \<or> (\<forall>t. cell_v cl = Str t \<longrightarrow> matchDate t = None)) \<longrightarrow>
         formatCellValue H (Some cl) ty = toString H (cell_v cl))) \<and>
   formatCellValue H (Some \<lparr>cell_v = Str (js ''Date(2024,0,15)''), cell_f = None\<rparr>) (js ''date'') =
     toLocaleDateString H 2024 0 15"
proof (intro conjI impI)
  show "formatCellValue H None ty = []"
    by (simp add: formatCellValue_def)
next
  assume "cell_f cl = Some s \<and> trim s \<noteq> []"
  then show "formatCellValue H (Some cl) ty = s"
    by (simp add: formatCellValue_def)
next
  assume "cell_f cl = None \<or> (\<exists>s. cell_f cl = Some s \<and> trim s = [])" and "cell_v cl = Null"
  then show "formatCellValue H (Some cl) ty = []"
    by (auto simp: formatCellValue_def)
next
  assume nf: "cell_f cl = None \<or> (\<exists>s. cell_f cl = Some s \<and> trim s = [])"
  assume a: "ty = js ''date'' \<and> cell_v cl = Str ((js ''Date('') @ y @ (js '','') @ m @ (js '','') @ d @ rest) \<and>
       y \<noteq> [] \<and> list_all isDigit y \<and> m \<noteq> [] \<and> list_all isDigit m \<and>
       d \<noteq> [] \<and> list_all isDigit d \<and> (rest = [] \<or> \<not> isDigit (hd rest))"
  then have "matchDate ((js ''Date('') @ y @ (js '','') @ m @ (js '','') @ d @ rest) = Some (y, m, d)"
    by (intro matchDate_pattern) simp_all
  with nf a show "formatCellValue H (Some cl) ty =
      toLocaleDateString H (Number y) (Number m) (Number d)"
    by (auto simp: formatCellValue_def)
next
  assume nf: "cell_f cl = None \<or> (\<exists>s. cell_f cl = Some s \<and> trim s = [])"
  assume "cell_v cl \<noteq> Null \<and> (ty \<noteq> (js ''date'') \<or> (\<forall>t. cell_v cl = Str t \<longrightarrow> matchDate t = None))"
  with nf show "formatCellValue H (Some cl) ty = toString H (cell_v cl)"
    by (auto simp: formatCellValue_def split: jsval.splits)
next
  show "formatCellValue H (Some \<lparr>cell_v = Str (js ''Date(2024,0,15)''), cell_f = None\<rparr>) (js ''date'') =
     toLocaleDateString H 2024 0 15"
    by (rule formatCellValue_example)
qed

theorem formatCellValue_cases_witness:
  "formatCellValue exampleHost (Some \<lparr>cell_v = Str (js ''x''), cell_f = Some (js ''7.5%'')\<rparr>) (js ''string'') = js ''7.5%'' \<and>
   formatCellValue exampleHost (Some \<lparr>cell_v = Str (js ''Date(2024,0,15)''), cell_f = None\<rparr>) (js ''date'') =
     (js ''2024-1-15'') \<and>
   formatCellValue exampleHost (Some \<lparr>cell_v = Num 42, cell_f = Some [160, 8233]\<rparr>) (js ''number'') = js ''42'' \<and>
   formatCellValue exampleHost (Some \<lparr>cell_v = Null, cell_f = None\<rparr>) (js ''date'') = []"
  using
    formatCellValue_cases [where H = exampleHost and ty = "(js ''string'')" and s = "(js ''7.5%'')" and
      cl = "\<lparr>cell_v = Str (js ''x''), cell_f = Some (js ''7.5%'')\<rparr>"]
    formatCellValue_cases [where H = exampleHost and ty = "(js ''date'')" and
      cl = "\<lparr>cell_v = Str (js ''Date(2024,0,15)''), cell_f = None\<rparr>" and
      y = "(js ''2024'')" and m = "(js ''0'')" and d = "(js ''15'')" and rest = "(js '')'')"]
    formatCellValue_cases [where H = exampleHost and ty = "(js ''number'')" and
      cl = "\<lparr>cell_v = Num 42, cell_f = Some [160, 8233]\<rparr>"]
    formatCellValue_cases [where H = exampleHost and ty = "(js ''date'')" and
      cl = "\<lparr>cell_v = Null, cell_f = None\<rparr>"]
  by (simp add: trim_def isSpace_def isDigit_def exampleHost_def isoDate_def toString_def
      showNat_examples [simplified] showNat_small Number_def)

text \<open>
  C4 as written fails on a display value of white space only: the cell with
  display value \<^verbatim>\<open>" "\<close> and raw value \<^verbatim>\<open>"x"\<close> formats to \<^verbatim>\<open>x\<close>, not to
  the display value.
\<close>

theorem formatCellValue_blank_display:
  "(js '' '') \<noteq> [] \<and>
   formatCellValue exampleHost (Some \<lparr>cell_v = Str (js ''x''), cell_f = Some (js '' '')\<rparr>) (js ''string'') = js ''x'' \<and>
   (js ''x'') \<noteq> (js '' '')"
  by (simp add: formatCellValue_def trim_def isSpace_def toString_def)


section \<open>The link resolver: bare identifiers and errors\<close>

lemma trim_all_space:
  assumes "list_all isSpace s"
  shows "trim s = []"
proof -
  have d: "dropWhile isSpace s = []"
    using assms by (simp add: list_all_iff)
  show ?thesis
    unfolding trim_def d by simp
qed

lemma regexSearch_here: "matchAt lits n s = Some m \<Longrightarrow> regexSearch lits n s = Some m"
  by (cases s) simp_all

lemma not_idChar_slash: "\<not> isIdChar (47)"
  by (simp add: isIdChar_def)

lemma extractSheetId_canonical:
  assumes "t \<noteq> []" and "list_all isIdChar t"
    and "pathname u = (js ''/spreadsheets/d/'') @ t @ (js ''/edit'')"
  shows "extractSheetId u = t"
proof -
  have "takeWhile isIdChar (t @ (js ''/edit'')) = t"
    using assms(2) by (simp add: list_all_iff not_idChar_slash)
  moreover have "1 \<le> length t"
    using assms(1) by (cases t) simp_all
  ultimately have "matchAt [js ''/spreadsheets/d/''] 1 ((js ''/spreadsheets/d/'') @ t @ (js ''/edit'')) = Some t"
    by (simp add: startsWith_def)
  then have "regexSearch [js ''/spreadsheets/d/''] 1 (pathname u) = Some t"
    unfolding assms(3) by (rule regexSearch_here)
  then show ?thesis
    by (simp add: extractSheetId_def)
qed

text \<open>
  C5. When the trimmed input consists of 30 or more characters of
  \<^verbatim>\<open>[a-zA-Z0-9-_]\<close>, the link resolver succeeds with a sheet reference whose
  \<^verbatim>\<open>sheetId\<close> is the trimmed input. The browser's \<^verbatim>\<open>URL\<close> constructor is assumed
  to read the address \<^verbatim>\<open>https://docs.google.com/spreadsheets/d/ID/edit\<close> that the
  resolver builds, with the path \<^verbatim>\<open>/spreadsheets/d/ID/edit\<close>.
\<close>

theorem bare_identifier_resolves:
  assumes "30 \<le> length (trim rawValue)" and "list_all isIdChar (trim rawValue)"
    and "new_URL B (sheetUrl (trim rawValue)) = Some u"
    and "pathname u = (js ''/spreadsheets/d/'') @ trim rawValue @ (js ''/edit'')"
  shows "\<exists>src. resolveLink B rawValue = Inr src \<and> sheetId src = trim rawValue"
proof -
  have ne: "trim rawValue \<noteq> []"
    using assms(1) by auto
  have p: "parseGoogleSheetLink B rawValue =
             Inr \<lparr>raw = trim rawValue, link_url = u, displayUrl = href u\<rparr>"
    using assms(1,2,3) ne by (simp add: parseGoogleSheetLink_def Let_def)
  have "extractSheetId u = trim rawValue"
    using ne assms(2,4) by (rule extractSheetId_canonical)
  with ne p show ?thesis
    by (simp add: resolveLink_def getSheetSource_def Let_def)
qed

theorem bare_identifier_resolves_witness:
  "30 \<le> length (trim (js ''  1aBcDeFgHiJkLmNoPqRsTuVwXyZ_0123456789-abcdefgh  '')) \<and>
   list_all isIdChar (trim (js ''  1aBcDeFgHiJkLmNoPqRsTuVwXyZ_0123456789-abcdefgh  '')) \<and>
   resolveLink exampleBrowser (js ''  1aBcDeFgHiJkLmNoPqRsTuVwXyZ_0123456789-abcdefgh  '') =
     Inr \<lparr>sheetId = js ''1aBcDeFgHiJkLmNoPqRsTuVwXyZ_0123456789-abcdefgh'', gid = [], sheet = []\<rparr>"
proof -
  let ?raw = "(js ''  1aBcDeFgHiJkLmNoPqRsTuVwXyZ_0123456789-abcdefgh  '')"
  let ?id = "(js ''1aBcDeFgHiJkLmNoPqRsTuVwXyZ_0123456789-abcdefgh'')"
  let ?u = "\<lparr>href = sheetUrl ?id, hostname = js ''docs.google.com'',
             pathname = (js ''/spreadsheets/d/'') @ ?id @ (js ''/edit''), searchParams = [], hash = []\<rparr>"
  have t: "trim ?raw = ?id"
    by (simp add: trim_def isSpace_def)
  have l: "30 \<le> length (trim ?raw)"
    unfolding t by simp
  have i: "list_all isIdChar (trim ?raw)"
    unfolding t by (simp add: isIdChar_def)
  have n: "new_URL exampleBrowser (sheetUrl (trim ?raw)) = Some ?u"
    unfolding t by (simp add: exampleBrowser_def simpleURL_def sheetUrl_def string_simps)
  have p: "pathname ?u = (js ''/spreadsheets/d/'') @ trim ?raw @ (js ''/edit'')"
    unfolding t by simp
  have e: "extractSheetId ?u = ?id"
    by (rule extractSheetId_canonical) (simp_all add: isIdChar_def)
  have g: "getSheetSource exampleBrowser ?u ?id = Inr \<lparr>sheetId = ?id, gid = [], sheet = []\<rparr>"
    using e
    by (simp add: getSheetSource_def Let_def exampleBrowser_def noParams_def getParam_def
        trim_def startsWith_def)
  have "parseGoogleSheetLink exampleBrowser ?raw =
          Inr \<lparr>raw = ?id, link_url = ?u, displayUrl = href ?u\<rparr>"
    using l i n unfolding t by (simp add: parseGoogleSheetLink_def t [simplified] Let_def)
  with g have r: "resolveLink exampleBrowser ?raw = Inr \<lparr>sheetId = ?id, gid = [], sheet = []\<rparr>"
    by (simp add: resolveLink_def)
  from bare_identifier_resolves [OF l i n p] l i r show ?thesis
    by simp
qed

lemma extractSheetIdFromRaw_example:
  "extractSheetIdFromRaw (js ''https://example.com/not-a-sheet'') = []"
  by (simp add: extractSheetIdFromRaw_def startsWith_def)

lemma extractSheetId_example:
  assumes "pathname u = js ''/not-a-sheet''" and "searchParams u = []"
  shows "extractSheetId u = []"
  using assms by (simp add: extractSheetId_def startsWith_def getParam_def trim_def)

text \<open>
  C6. For an empty input, or one of white space only, the link resolver fails with the
  error \<^verbatim>\<open>Please paste a Google Sheets link.\<close> (the invalid-link error). For the
  input \<^verbatim>\<open>https://example.com/not-a-sheet\<close>, which the browser reads as the host
  \<^verbatim>\<open>example.com\<close> with the path \<^verbatim>\<open>/not-a-sheet\<close> and no query, it fails with the
  error \<^verbatim>\<open>Only Google Sheets links are supported.\<close> (the unsupported-link error).
\<close>

theorem link_errors:
  "(list_all isSpace rawValue \<longrightarrow>
      resolveLink B rawValue = Inl (Error ''Please paste a Google Sheets link.'')) \<and>
   (new_URL B (js ''https://example.com/not-a-sheet'') = Some u \<and> hostname u = js ''example.com'' \<and>
    pathname u = js ''/not-a-sheet'' \<and> searchParams u = [] \<longrightarrow>
      resolveLink B (js ''https://example.com/not-a-sheet'') =
        Inl (Error ''Only Google Sheets links are supported.''))"
proof (intro conjI impI)
  assume "list_all isSpace rawValue"
  then have "trim rawValue = []"
    by (rule trim_all_space)
  then show "resolveLink B rawValue = Inl (Error ''Please paste a Google Sheets link.'')"
    by (simp add: resolveLink_def parseGoogleSheetLink_def)
next
  assume a: "new_URL B (js ''https://example.com/not-a-sheet'') = Some u \<and>
    hostname u = js ''example.com'' \<and> pathname u = js ''/not-a-sheet'' \<and> searchParams u = []"
  have t: "trim (js ''https://example.com/not-a-sheet'') = js ''https://example.com/not-a-sheet''"
    by (simp add: trim_def isSpace_def)
  have e: "extractSheetId u = []"
    using a by (intro extractSheetId_example) simp_all
  have "parseGoogleSheetLink B (js ''https://example.com/not-a-sheet'') =
          Inl (Error ''Only Google Sheets links are supported.'')"
    using a by (simp add: parseGoogleSheetLink_def t [simplified] e
        extractSheetIdFromRaw_example [simplified]
        endsWith_def Let_def isIdChar_def startsWith_def asciiLowerCase_def)
  then show "resolveLink B (js ''https://example.com/not-a-sheet'') =
        Inl (Error ''Only Google Sheets links are supported.'')"
    by (simp add: resolveLink_def)
qed

theorem link_errors_witness:
  "list_all isSpace [32, 9, 160, 8232, 65279] \<and>
   resolveLink exampleBrowser [32, 9, 160, 8232, 65279] =
     Inl (Error ''Please paste a Google Sheets link.'') \<and>
   resolveLink exampleBrowser [] = Inl (Error ''Please paste a Google Sheets link.'') \<and>
   new_URL exampleBrowser (js ''https://example.com/not-a-sheet'') =
     Some \<lparr>href = js ''https://example.com/not-a-sheet'', hostname = js ''example.com'',
            pathname = js ''/not-a-sheet'', searchParams = [], hash = []\<rparr> \<and>
   resolveLink exampleBrowser (js ''https://example.com/not-a-sheet'') =
     Inl (Error ''Only Google Sheets links are supported.'')"
proof -
  have n: "new_URL exampleBrowser (js ''https://example.com/not-a-sheet'') =
     Some \<lparr>href = js ''https://example.com/not-a-sheet'', hostname = js ''example.com'',
            pathname = js ''/not-a-sheet'', searchParams = [], hash = []\<rparr>"
    by (simp add: exampleBrowser_def simpleURL_def string_simps)
  have w: "list_all isSpace [32, 9, 160, 8232, 65279]" "list_all isSpace []"
    by (simp_all add: isSpace_def)
  from link_errors [where B = exampleBrowser and rawValue = "[32, 9, 160, 8232, 65279]" and
      u = "\<lparr>href = js ''https://example.com/not-a-sheet'', hostname = js ''example.com'',
            pathname = js ''/not-a-sheet'', searchParams = [], hash = []\<rparr>"]
    link_errors [where B = exampleBrowser and rawValue = "[]"] n w
  show ?thesis by simp
qed


section \<open>The facet resolver: matching and fallbacks\<close>

lemma exactLoop_first:
  "find (\<lambda>a. a \<in> key ` set cols) nas = Some a \<Longrightarrow> exactLoop cols nas = Some a"
proof (induction nas)
  case Nil
  then show ?case by simp
next
  case (Cons x nas)
  show ?case
  proof (cases "x \<in> key ` set cols")
    case True
    then obtain c where "find (\<lambda>col. key col = x) cols = Some c"
      by (cases "find (\<lambda>col. key col = x) cols") (auto simp: find_None_iff)
    moreover from this have "key c = x"
      by (auto simp: find_Some_iff)
    ultimately show ?thesis
      using Cons.prems True by simp
  next
    case False
    then have "find (\<lambda>col. key col = x) cols = None"
      by (auto simp: find_None_iff)
    with False Cons show ?thesis by simp
  qed
qed

lemma exactLoop_none:
  "\<forall>a\<in>set nas. a \<notin> key ` set cols \<Longrightarrow> exactLoop cols nas = None"
proof (induction nas)
  case Nil
  then show ?case by simp
next
  case (Cons x nas)
  then have "find (\<lambda>col. key col = x) cols = None"
    by (auto simp: find_None_iff)
  with Cons show ?case by simp
qed

lemma partialLoop_first:
  "find (\<lambda>a. \<exists>c\<in>set cols. includesStr (key c) a \<or> includesStr a (key c)) nas = Some a \<Longrightarrow>
   find (\<lambda>c. includesStr (key c) a \<or> includesStr a (key c)) cols = Some c \<Longrightarrow>
   partialLoop cols nas = Some (key c)"
proof (induction nas)
  case Nil
  then show ?case by simp
next
  case (Cons x nas)
  show ?case
  proof (cases "\<exists>c\<in>set cols. includesStr (key c) x \<or> includesStr x (key c)")
    case True
    with Cons.prems show ?thesis by simp
  next
    case False
    then have "find (\<lambda>c. includesStr (key c) x \<or> includesStr x (key c)) cols = None"
      by (auto simp: find_None_iff)
    with False Cons show ?thesis by simp
  qed
qed

lemma partialLoop_none:
  "\<forall>a\<in>set nas. \<forall>c\<in>set cols. \<not> (includesStr (key c) a \<or> includesStr a (key c)) \<Longrightarrow>
   partialLoop cols nas = None"
proof (induction nas)
  case Nil
  then show ?case by simp
next
  case (Cons x nas)
  then have "find (\<lambda>c. includesStr (key c) x \<or> includesStr x (key c)) cols = None"
    by (auto simp: find_None_iff)
  with Cons show ?case by simp
qed

lemma includesStr_refl: "includesStr s s"
  by (cases s) (simp_all add: startsWith_def)

lemma columnKey_nonempty: "columnKey H header index \<noteq> []"
  by (simp add: columnKey_def)

lemma normalized_manager_aliases:
  "map (normalizeHeader H) COLUMN_ALIASES_manager =
     [js ''assigned project manager'', js ''project manager'']"
  by (simp add: COLUMN_ALIASES_manager_def normalizeHeader_def toLowerCase_def string_simps)

lemma normalizeHeader_manager:
  "normalizeHeader H (js ''Assigned Project Manager'') = js ''assigned project manager''"
  by (simp add: normalizeHeader_def toLowerCase_def string_simps)

lemma findColumnKey_exact:
  "find (\<lambda>a. a \<in> key ` set cols) (map (normalizeHeader H) aliases) = Some a \<Longrightarrow>
   findColumnKey H cols aliases = a"
  by (simp add: findColumnKey_def exactLoop_first)

text \<open>
  C7. For a role's aliases, normalized and taken in their declared order:
  the first alias that is the key of some column wins, before any substring match is
  tried, and the result is that key; when no alias is a key, the first alias that
  contains a column's key or is contained in one wins, and the result is the key of the
  first such column; when no alias matches any column, the result is empty. A matched
  role gets the key so found. An unmatched \<^verbatim>\<open>system\<close> role falls back to the first
  column's key, an unmatched \<^verbatim>\<open>milestone\<close> role to the second column's key (or to
  the first when there is no second, or when the second key is empty), and the
  \<^verbatim>\<open>developer\<close> and \<^verbatim>\<open>manager\<close> roles have no fallback: unmatched, they stay empty.
  The keys the normalizers give are never empty. The header
  \<^verbatim>\<open>Assigned Project Manager\<close> normalizes to \<^verbatim>\<open>assigned project manager\<close>, and a
  table with a column of that key has it as its \<^verbatim>\<open>manager\<close> role.
\<close>

theorem facet_resolver:
  "(find (\<lambda>a. a \<in> key ` set cols) (map (normalizeHeader H) aliases) = Some a \<longrightarrow>
      findColumnKey H cols aliases = a) \<and>
   ((\<forall>b\<in>set (map (normalizeHeader H) aliases). b \<notin> key ` set cols) \<and>
    find (\<lambda>b. \<exists>c\<in>set cols. includesStr (key c) b \<or> includesStr b (key c))
      (map (normalizeHeader H) aliases) = Some a \<and>
    find (\<lambda>c. includesStr (key c) a \<or> includesStr a (key c)) cols = Some col \<longrightarrow>
      findColumnKey H cols aliases = key col) \<and>
   ((\<forall>b\<in>set (map (normalizeHeader H) aliases). \<forall>c\<in>set cols.
        \<not> (includesStr (key c) b \<or> includesStr b (key c))) \<longrightarrow>
      findColumnKey H cols aliases = []) \<and>
   (findColumnKey H cols COLUMN_ALIASES_system \<noteq> [] \<longrightarrow>
      col_system (determineFilterColumns H cols) = findColumnKey H cols COLUMN_ALIASES_system) \<and>
   (findColumnKey H cols COLUMN_ALIASES_system = [] \<longrightarrow>
      col_system (determineFilterColumns H cols) = (if cols = [] then [] else key (cols ! 0))) \<and>
   (findColumnKey H cols COLUMN_ALIASES_milestone \<noteq> [] \<longrightarrow>
      col_milestone (determineFilterColumns H cols) =
        findColumnKey H cols COLUMN_ALIASES_milestone) \<and>
   (findColumnKey H cols COLUMN_ALIASES_milestone = [] \<longrightarrow>
      col_milestone (determineFilterColumns H cols) =
        (if 2 \<le> length cols \<and> key (cols ! 1) \<noteq> [] then key (cols ! 1)
         else if cols = [] then [] else key (cols ! 0))) \<and>
   col_developer (determineFilterColumns H cols) = findColumnKey H cols COLUMN_ALIASES_developer \<and>
   col_manager (determineFilterColumns H cols) = findColumnKey H cols COLUMN_ALIASES_manager \<and>
   columnKey H header index \<noteq> [] \<and>
   normalizeHeader H (js ''Assigned Project Manager'') = js ''assigned project manager'' \<and>
   (js ''assigned project manager'' \<in> key ` set cols \<longrightarrow>
      col_manager (determineFilterColumns H cols) = js ''assigned project manager'')"
proof (intro conjI impI)
  assume "find (\<lambda>a. a \<in> key ` set cols) (map (normalizeHeader H) aliases) = Some a"
  then show "findColumnKey H cols aliases = a"
    by (rule findColumnKey_exact)
next
  assume a: "(\<forall>b\<in>set (map (normalizeHeader H) aliases). b \<notin> key ` set cols) \<and>
    find (\<lambda>b. \<exists>c\<in>set cols. includesStr (key c) b \<or> includesStr b (key c))
      (map (normalizeHeader H) aliases) = Some a \<and>
    find (\<lambda>c. includesStr (key c) a \<or> includesStr a (key c)) cols = Some col"
  then have "exactLoop cols (map (normalizeHeader H) aliases) = None"
    by (intro exactLoop_none) blast
  moreover from a have "partialLoop cols (map (normalizeHeader H) aliases) = Some (key col)"
    by (intro partialLoop_first) blast+
  ultimately show "findColumnKey H cols aliases = key col"
    by (simp add: findColumnKey_def)
next
  assume a: "\<forall>b\<in>set (map (normalizeHeader H) aliases). \<forall>c\<in>set cols.
        \<not> (includesStr (key c) b \<or> includesStr b (key c))"
  have "\<forall>b\<in>set (map (normalizeHeader H) aliases). b \<notin> key ` set cols"
  proof
    fix b assume b: "b \<in> set (map (normalizeHeader H) aliases)"
    show "b \<notin> key ` set cols"
    proof
      assume "b \<in> key ` set cols"
      then obtain c where "c \<in> set cols" "key c = b" by auto
      with a b includesStr_refl [of b] show False by blast
    qed
  qed
  then have "exactLoop cols (map (normalizeHeader H) aliases) = None"
    by (rule exactLoop_none)
  moreover from a have "partialLoop cols (map (normalizeHeader H) aliases) = None"
    by (rule partialLoop_none)
  ultimately show "findColumnKey H cols aliases = []"
    by (simp add: findColumnKey_def)
next
  assume "findColumnKey H cols COLUMN_ALIASES_system \<noteq> []"
  then show "col_system (determineFilterColumns H cols) =
      findColumnKey H cols COLUMN_ALIASES_system"
    by (simp add: determineFilterColumns_def)
next
  assume "findColumnKey H cols COLUMN_ALIASES_system = []"
  then show "col_system (determineFilterColumns H cols) =
      (if cols = [] then [] else key (cols ! 0))"
    by (simp add: determineFilterColumns_def keyAt_def)
next
  assume "findColumnKey H cols COLUMN_ALIASES_milestone \<noteq> []"
  then show "col_milestone (determineFilterColumns H cols) =
      findColumnKey H cols COLUMN_ALIASES_milestone"
    by (simp add: determineFilterColumns_def)
next
  assume "findColumnKey H cols COLUMN_ALIASES_milestone = []"
  then show "col_milestone (determineFilterColumns H cols) =
        (if 2 \<le> length cols \<and> key (cols ! 1) \<noteq> [] then key (cols ! 1)
         else if cols = [] then [] else key (cols ! 0))"
    by (cases cols) (auto simp: determineFilterColumns_def keyAt_def Suc_le_eq)
next
  show "col_developer (determineFilterColumns H cols) =
      findColumnKey H cols COLUMN_ALIASES_developer"
    by (simp add: determineFilterColumns_def)
next
  show "col_manager (determineFilterColumns H cols) = findColumnKey H cols COLUMN_ALIASES_manager"
    by (simp add: determineFilterColumns_def)
next
  show "columnKey H header index \<noteq> []"
    by (rule columnKey_nonempty)
next
  show "normalizeHeader H (js ''Assigned Project Manager'') = js ''assigned project manager''"
    by (rule normalizeHeader_manager)
next
  assume "js ''assigned project manager'' \<in> key ` set cols"
  then have "find (\<lambda>a. a \<in> key ` set cols) (map (normalizeHeader H) COLUMN_ALIASES_manager) =
      Some (js ''assigned project manager'')"
    by (simp add: normalized_manager_aliases)
  then have "findColumnKey H cols COLUMN_ALIASES_manager = js ''assigned project manager''"
    by (rule findColumnKey_exact)
  then show "col_manager (determineFilterColumns H cols) = js ''assigned project manager''"
    by (simp add: determineFilterColumns_def)
qed


lemma normalized_aliases:
  "map (normalizeHeader H) COLUMN_ALIASES_system =
     [js ''system'', js ''project name'', js ''system project name'', js ''system project name'']"
  "map (normalizeHeader H) COLUMN_ALIASES_milestone = [js ''milestone'', js ''next milestone'']"
  "map (normalizeHeader H) COLUMN_ALIASES_developer = [js ''assigned developer'', js ''developer'']"
  by (simp_all add: COLUMN_ALIASES_system_def COLUMN_ALIASES_milestone_def
      COLUMN_ALIASES_developer_def normalizeHeader_def toLowerCase_def string_simps)

theorem facet_resolver_witness:
  "findColumnKey exampleHost
     [\<lparr>key = js ''project name'', label = js ''Project Name'', type = js ''string''\<rparr>,
      \<lparr>key = js ''system'', label = js ''System'', type = js ''string''\<rparr>]
     COLUMN_ALIASES_system = js ''system'' \<and>
   findColumnKey exampleHost
     [\<lparr>key = js ''id'', label = js ''ID'', type = js ''string''\<rparr>,
      \<lparr>key = js ''lead developer'', label = js ''Lead developer'', type = js ''string''\<rparr>]
     COLUMN_ALIASES_developer = js ''lead developer'' \<and>
   col_system (determineFilterColumns exampleHost
     [\<lparr>key = js ''project name'', label = js ''Project Name'', type = js ''string''\<rparr>,
      \<lparr>key = js ''system'', label = js ''System'', type = js ''string''\<rparr>]) = js ''system'' \<and>
   col_milestone (determineFilterColumns exampleHost
     [\<lparr>key = js ''milestone'', label = js ''Milestone'', type = js ''string''\<rparr>,
      \<lparr>key = js ''q2'', label = js ''Q2'', type = js ''string''\<rparr>]) = js ''milestone'' \<and>
   determineFilterColumns exampleHost
     [\<lparr>key = js ''q1'', label = js ''Q1'', type = js ''string''\<rparr>,
      \<lparr>key = js ''q2'', label = js ''Q2'', type = js ''string''\<rparr>] =
     \<lparr>col_system = js ''q1'', col_milestone = js ''q2'', col_developer = [], col_manager = []\<rparr> \<and>
   col_milestone (determineFilterColumns exampleHost
     [\<lparr>key = js ''q1'', label = js ''Q1'', type = js ''string''\<rparr>]) = js ''q1'' \<and>
   col_manager (determineFilterColumns exampleHost
     [\<lparr>key = js ''q1'', label = js ''Q1'', type = js ''string''\<rparr>,
      \<lparr>key = js ''assigned project manager'', label = js ''Assigned Project Manager'',
       type = js ''string''\<rparr>]) = js ''assigned project manager''"
proof -
  let ?ps = "[\<lparr>key = js ''project name'', label = js ''Project Name'', type = js ''string''\<rparr>,
              \<lparr>key = js ''system'', label = js ''System'', type = js ''string''\<rparr>]"
  let ?dev = "\<lparr>key = js ''lead developer'', label = js ''Lead developer'', type = js ''string''\<rparr>"
  let ?id = "[\<lparr>key = js ''id'', label = js ''ID'', type = js ''string''\<rparr>, ?dev]"
  let ?ms = "[\<lparr>key = js ''milestone'', label = js ''Milestone'', type = js ''string''\<rparr>,
              \<lparr>key = js ''q2'', label = js ''Q2'', type = js ''string''\<rparr>]"
  let ?q = "[\<lparr>key = js ''q1'', label = js ''Q1'', type = js ''string''\<rparr>,
             \<lparr>key = js ''q2'', label = js ''Q2'', type = js ''string''\<rparr>]"
  let ?q1 = "[\<lparr>key = js ''q1'', label = js ''Q1'', type = js ''string''\<rparr>]"
  let ?m = "[\<lparr>key = js ''q1'', label = js ''Q1'', type = js ''string''\<rparr>,
             \<lparr>key = js ''assigned project manager'', label = js ''Assigned Project Manager'',
              type = js ''string''\<rparr>]"
  note ev = normalized_aliases normalized_manager_aliases startsWith_def
  note R = facet_resolver [where H = exampleHost]
  have exact: "findColumnKey exampleHost ?ps COLUMN_ALIASES_system = js ''system''"
    by (rule R [where cols = ?ps and aliases = COLUMN_ALIASES_system,
          THEN conjunct1, rule_format]) (simp add: ev)
  have exactm: "findColumnKey exampleHost ?ms COLUMN_ALIASES_milestone = js ''milestone''"
    by (rule R [where cols = ?ms and aliases = COLUMN_ALIASES_milestone,
          THEN conjunct1, rule_format]) (simp add: ev)
  have partial: "findColumnKey exampleHost ?id COLUMN_ALIASES_developer = key ?dev"
    by (rule R [where cols = ?id and aliases = COLUMN_ALIASES_developer and
          a = "js ''developer''", THEN conjunct2, THEN conjunct1, rule_format]) (simp add: ev)
  have none: "findColumnKey exampleHost ?q COLUMN_ALIASES_system = []"
      "findColumnKey exampleHost ?q COLUMN_ALIASES_milestone = []"
      "findColumnKey exampleHost ?q COLUMN_ALIASES_developer = []"
      "findColumnKey exampleHost ?q COLUMN_ALIASES_manager = []"
      "findColumnKey exampleHost ?q1 COLUMN_ALIASES_milestone = []"
    by (rule R [THEN conjunct2, THEN conjunct2, THEN conjunct1, rule_format];
        auto simp: ev)+
  have sysm: "col_system (determineFilterColumns exampleHost ?ps) = js ''system''"
    using R [where cols = ?ps, THEN conjunct2, THEN conjunct2, THEN conjunct2,
        THEN conjunct1] exact by simp
  have msm: "col_milestone (determineFilterColumns exampleHost ?ms) = js ''milestone''"
    using R [where cols = ?ms, THEN conjunct2, THEN conjunct2, THEN conjunct2,
        THEN conjunct2, THEN conjunct2, THEN conjunct1] exactm by simp
  have sys: "col_system (determineFilterColumns exampleHost ?q) = js ''q1''"
    using R [where cols = ?q, THEN conjunct2, THEN conjunct2, THEN conjunct2,
        THEN conjunct2, THEN conjunct1] none(1) by simp
  have ms: "col_milestone (determineFilterColumns exampleHost ?q) = js ''q2''"
    using R [where cols = ?q, THEN conjunct2, THEN conjunct2, THEN conjunct2,
        THEN conjunct2, THEN conjunct2, THEN conjunct2, THEN conjunct1]
      none(2) by simp
  have dv: "col_developer (determineFilterColumns exampleHost ?q) = []"
    using R [where cols = ?q, THEN conjunct2, THEN conjunct2, THEN conjunct2,
        THEN conjunct2, THEN conjunct2, THEN conjunct2, THEN conjunct2,
        THEN conjunct1] none(3) by simp
  have mg: "col_manager (determineFilterColumns exampleHost ?q) = []"
    using R [where cols = ?q, THEN conjunct2, THEN conjunct2, THEN conjunct2,
        THEN conjunct2, THEN conjunct2, THEN conjunct2, THEN conjunct2,
        THEN conjunct2, THEN conjunct1] none(4) by simp
  have one: "col_milestone (determineFilterColumns exampleHost ?q1) = js ''q1''"
    using R [where cols = ?q1, THEN conjunct2, THEN conjunct2, THEN conjunct2,
        THEN conjunct2, THEN conjunct2, THEN conjunct2, THEN conjunct1]
      none(5) by simp
  have man: "col_manager (determineFilterColumns exampleHost ?m) = js ''assigned project manager''"
    using R [where cols = ?m, THEN conjunct2, THEN conjunct2, THEN conjunct2,
        THEN conjunct2, THEN conjunct2, THEN conjunct2, THEN conjunct2,
        THEN conjunct2, THEN conjunct2, THEN conjunct2, THEN conjunct2] by simp
  have "determineFilterColumns exampleHost ?q =
      \<lparr>col_system = js ''q1'', col_milestone = js ''q2'', col_developer = [], col_manager = []\<rparr>"
    using sys ms dv mg by (cases "determineFilterColumns exampleHost ?q") simp
  with exact partial sysm msm one man show ?thesis
    by simp
qed


section \<open>Filtering\<close>

text \<open>
  C8, as the code has it. The filtered rows are exactly the rows, in their order, whose
  value under the system column equals the system selection (when one is selected),
  whose value under the milestone column equals the milestone selection (when one is
  selected), and which match the search text. When the search text is blank this is
  exactly the rows that agree with both selections; an empty selection of either facet
  excludes no row, and with both selections empty every row is kept.
\<close>

theorem applyFilters_rows:
  "st_filteredRows (applyFilters H st) =
     filter (\<lambda>r. (filter_system (st_filters st) = [] \<or>
                   rowGet H r (col_system (st_filterColumns st)) = filter_system (st_filters st)) \<and>
                  (filter_milestone (st_filters st) = [] \<or>
                   rowGet H r (col_milestone (st_filterColumns st)) = filter_milestone (st_filters st)) \<and>
                  rowMatchesSearch H st r (toLowerCase H (trim (filter_search (st_filters st)))))
       (st_rows st) \<and>
   (trim (filter_search (st_filters st)) = [] \<longrightarrow>
      st_filteredRows (applyFilters H st) =
        filter (\<lambda>r. (filter_system (st_filters st) = [] \<or>
                      rowGet H r (col_system (st_filterColumns st)) = filter_system (st_filters st)) \<and>
                     (filter_milestone (st_filters st) = [] \<or>
                      rowGet H r (col_milestone (st_filterColumns st)) =
                        filter_milestone (st_filters st)))
          (st_rows st)) \<and>
   (trim (filter_search (st_filters st)) = [] \<and> filter_system (st_filters st) = [] \<longrightarrow>
      st_filteredRows (applyFilters H st) =
        filter (\<lambda>r. filter_milestone (st_filters st) = [] \<or>
                     rowGet H r (col_milestone (st_filterColumns st)) =
                       filter_milestone (st_filters st))
          (st_rows st)) \<and>
   (trim (filter_search (st_filters st)) = [] \<and> filter_milestone (st_filters st) = [] \<longrightarrow>
      st_filteredRows (applyFilters H st) =
        filter (\<lambda>r. filter_system (st_filters st) = [] \<or>
                     rowGet H r (col_system (st_filterColumns st)) = filter_system (st_filters st))
          (st_rows st)) \<and>
   (trim (filter_search (st_filters st)) = [] \<and> filter_system (st_filters st) = [] \<and>
    filter_milestone (st_filters st) = [] \<longrightarrow>
      st_filteredRows (applyFilters H st) = st_rows st)"
proof -
  have main: "st_filteredRows (applyFilters H st) =
     filter (\<lambda>r. (filter_system (st_filters st) = [] \<or>
                   rowGet H r (col_system (st_filterColumns st)) = filter_system (st_filters st)) \<and>
                  (filter_milestone (st_filters st) = [] \<or>
                   rowGet H r (col_milestone (st_filterColumns st)) = filter_milestone (st_filters st)) \<and>
                  rowMatchesSearch H st r (toLowerCase H (trim (filter_search (st_filters st)))))
       (st_rows st)"
    by (auto simp: applyFilters_def Let_def intro!: filter_cong)
  have blank: "trim (filter_search (st_filters st)) = [] \<Longrightarrow>
      rowMatchesSearch H st r (toLowerCase H (trim (filter_search (st_filters st))))" for r
  proof -
    assume "trim (filter_search (st_filters st)) = []"
    moreover have "toLowerCase H [] = []"
      by (simp add: toLowerCase_def asciiLowerCase_def)
    ultimately show ?thesis
      by (simp add: rowMatchesSearch_def)
  qed
  show ?thesis
    using main blank by simp
qed

theorem applyFilters_rows_witness:
  "trim (filter_search (st_filters (exampleState (js ''A'') [] [32, 160, 8232]))) = [] \<and>
   st_filteredRows (applyFilters exampleHost (exampleState (js ''A'') [] [32, 160, 8232])) =
     [rowA] \<and>
   st_filteredRows (applyFilters exampleHost (exampleState [] [] [])) = [rowA, rowB]"
proof -
  have b1: "trim (filter_search (st_filters (exampleState (js ''A'') [] [32, 160, 8232]))) = []"
    by (simp add: exampleState_def trim_def isSpace_def)
  have "st_filteredRows (applyFilters exampleHost (exampleState (js ''A'') [] [32, 160, 8232])) =
          filter (\<lambda>r. rowGet exampleHost r (js ''system'') = js ''A'') [rowA, rowB]"
    using applyFilters_rows [of exampleHost "exampleState (js ''A'') [] [32, 160, 8232]",
        THEN conjunct2, THEN conjunct1, rule_format, OF b1]
    by (simp add: exampleState_def)
  then have r1:
    "st_filteredRows (applyFilters exampleHost (exampleState (js ''A'') [] [32, 160, 8232])) =
       [rowA]"
    by (simp add: rowGet_def rowA_def rowB_def exampleHost_def objectPrototype_def)
  have b0: "trim (filter_search (st_filters (exampleState [] [] []))) = [] \<and>
      filter_system (st_filters (exampleState [] [] [])) = [] \<and>
      filter_milestone (st_filters (exampleState [] [] [])) = []"
    by (simp add: exampleState_def trim_def)
  have r0: "st_filteredRows (applyFilters exampleHost (exampleState [] [] [])) = [rowA, rowB]"
    using applyFilters_rows [of exampleHost "exampleState [] [] []", THEN conjunct2, THEN conjunct2,
        THEN conjunct2, THEN conjunct2, rule_format, OF b0]
    by (simp add: exampleState_def)
  from b1 r1 r0 show ?thesis
    by simp
qed

text \<open>
  C8 as written fails when the search text is not blank: with both selections
  empty and the search text \<^verbatim>\<open>zzz\<close>, no row is kept.
\<close>

theorem applyFilters_search_excludes:
  "filter_system (st_filters (exampleState [] [] (js ''zzz''))) = [] \<and>
   filter_milestone (st_filters (exampleState [] [] (js ''zzz''))) = [] \<and>
   st_rows (exampleState [] [] (js ''zzz'')) = [rowA, rowB] \<and>
   st_filteredRows (applyFilters exampleHost (exampleState [] [] (js ''zzz''))) = []"
  by (simp add: exampleState_def applyFilters_def rowMatchesSearch_def toLowerCase_def
      string_simps rowGet_def rowA_def rowB_def)


section \<open>Normalization is deterministic\<close>

lemma columnKey_host:
  assumes "unicodeLowerCase H' = unicodeLowerCase H"
  shows "columnKey H' = columnKey H"
  using assms by (intro ext) (simp add: columnKey_def normalizeHeader_def toLowerCase_def)

text \<open>
  C9. Normalization is a function of the payload (and of the browser's number and date
  formats) alone: two applications to the same payload give the same table, with the
  same column keys, labels and types and the same rows in the same order, in each of
  the three shapes. The keys are generated from the labels and their positions only:
  two payloads with the same labels get the same keys, whatever their types, their rows
  and the browser's number and date formats are (the lower case of a character outside
  ASCII is the one thing of the browser that a key depends on).
\<close>

theorem normalization_deterministic:
  "(ta = mapPayload H p \<and> tb = mapPayload H p \<or>
    parseCsvText H csvText = Inr ta \<and> parseCsvText H csvText = Inr tb \<or>
    ta = mapRecords H firstRow rws \<and> tb = mapRecords H firstRow rws \<longrightarrow>
      map key (columns ta) = map key (columns tb) \<and>
      map label (columns ta) = map label (columns tb) \<and>
      map type (columns ta) = map type (columns tb) \<and>
      rows ta = rows tb \<and> ta = tb) \<and>
   (map labelText (payloadCols p) = map labelText (payloadCols q) \<and>
    unicodeLowerCase H' = unicodeLowerCase H \<longrightarrow>
      map key (columns (mapPayload H p)) = map key (columns (mapPayload H' q))) \<and>
   (map fst firstRow = map fst firstRow' \<and> unicodeLowerCase H' = unicodeLowerCase H \<longrightarrow>
      map key (columns (mapRecords H firstRow rws)) =
        map key (columns (mapRecords H' firstRow' rws')))"
proof (intro conjI impI)
  assume a: "ta = mapPayload H p \<and> tb = mapPayload H p \<or>
    parseCsvText H csvText = Inr ta \<and> parseCsvText H csvText = Inr tb \<or>
    ta = mapRecords H firstRow rws \<and> tb = mapRecords H firstRow rws"
  then have e: "ta = tb"
    by (elim disjE conjE) simp_all
  then show "map key (columns ta) = map key (columns tb)"
    and "map label (columns ta) = map label (columns tb)"
    and "map type (columns ta) = map type (columns tb)"
    and "rows ta = rows tb" and "ta = tb"
    by simp_all
next
  assume "map labelText (payloadCols p) = map labelText (payloadCols q) \<and>
    unicodeLowerCase H' = unicodeLowerCase H"
  then show "map key (columns (mapPayload H p)) = map key (columns (mapPayload H' q))"
    by (simp add: keys_mapPayload columnKey_host [of H' H])
next
  assume "map fst firstRow = map fst firstRow' \<and> unicodeLowerCase H' = unicodeLowerCase H"
  then show "map key (columns (mapRecords H firstRow rws)) =
        map key (columns (mapRecords H' firstRow' rws'))"
    by (simp add: keys_mapRecords columnKey_host [of H' H])
qed

lemma normalizeHeader_project_name:
  "normalizeHeader H (js ''Project Name'') = js ''project name''"
  by (simp add: normalizeHeader_def toLowerCase_def string_simps)

theorem normalization_deterministic_witness:
  "map labelText (payloadCols payloadOne) = map labelText (payloadCols payloadTwo) \<and>
   map key (columns (mapPayload exampleHost payloadOne)) = [js ''project name'', js ''column 2''] \<and>
   map key (columns (mapPayload exampleHost payloadTwo)) = [js ''project name'', js ''column 2''] \<and>
   map type (columns (mapPayload exampleHost payloadOne)) = [js ''string'', js ''date''] \<and>
   rows (mapPayload exampleHost payloadOne) = rows (mapPayload exampleHost payloadOne)"
proof -
  have l: "map labelText (payloadCols payloadOne) = map labelText (payloadCols payloadTwo)"
    by (simp add: payloadCols_def payloadOne_def payloadTwo_def labelText_def)
  have k: "map key (columns (mapPayload exampleHost payloadTwo)) = [js ''project name'', js ''column 2'']"
    by (simp add: mapPayload_def payloadCols_def payloadRows_def payloadTwo_def labelText_def
        columnKey_def normalizeHeader_project_name [simplified] normalizeHeader_examples [simplified] showNat_small
        enumerate_eq_zip)
  have ty: "map type (columns (mapPayload exampleHost payloadOne)) = [js ''string'', js ''date'']"
    by (simp add: mapPayload_def payloadCols_def payloadOne_def Let_def enumerate_eq_zip
        del: fun_upd_apply)
  note d = normalization_deterministic [where H = exampleHost and H' = exampleHost and
      p = payloadOne and q = payloadTwo and ta = "mapPayload exampleHost payloadOne" and
      tb = "mapPayload exampleHost payloadOne"]
  from d [THEN conjunct2, THEN conjunct1, rule_format, OF conjI [OF l refl]] k
  have "map key (columns (mapPayload exampleHost payloadOne)) = [js ''project name'', js ''column 2'']"
    by simp
  moreover from d [THEN conjunct1]
  have "rows (mapPayload exampleHost payloadOne) = rows (mapPayload exampleHost payloadOne)"
    by simp
  ultimately show ?thesis
    using l k ty by simp
qed


section \<open>The transport cascade and its errors\<close>

text \<open>
  C2 against the code. The first three strategies swallow their errors: whenever the
  cascade fails, each of them has been tried and has given no table.
\<close>

lemma cascade_unavailable_after_all:
  assumes "fetchSheetMappedData H N src = Inl e"
  shows "tryGviz H N src = None \<and> tryJsonp H N src = None \<and> tryCsv H N src = None"
  using assms
  by (auto simp: fetchSheetMappedData_def split: option.splits)

lemma cascade_mirror_rejection:
  assumes "tryGviz H N src = None" and "tryJsonp H N src = None" and "tryCsv H N src = None"
    and "sheet src \<noteq> []" and "fetchOpenSheet N src = Rejected e"
  shows "fetchSheetMappedData H N src = Inl e"
  using assms by (simp add: fetchSheetMappedData_def)

text \<open>
  The fourth strategy does not: its request stands outside any \<^verbatim>\<open>try\<close>. With a tab
  name in the source and every request failing, the cascade fails with the mirror
  request's own error and not with the error \<^verbatim>\<open>Unable to load sheet data...\<close>; with no
  tab name the same network gives that error.
\<close>

theorem cascade_mirror_error_propagates:
  "fetchSheetMappedData exampleHost offlineNetwork
     \<lparr>sheetId = js ''1aBc'', gid = [], sheet = js ''Sheet1''\<rparr> = Inl (TypeError ''Failed to fetch'') \<and>
   TypeError ''Failed to fetch'' \<noteq> unavailable \<and>
   fetchSheetMappedData exampleHost offlineNetwork
     \<lparr>sheetId = js ''1aBc'', gid = [], sheet = []\<rparr> = Inl unavailable"
  by (simp add: fetchSheetMappedData_def tryGviz_def tryJsonp_def tryCsv_def offlineNetwork_def
      failedFetch_def failedJsonp_def unavailable_def)

end
